theory Spec2Isabelle
  imports Complex_Main "HOL-Library.Sublist"
begin

section \<open>The API client (src/services/api.ts)\<close>

text \<open>
  The browser state the client touches: \<^verbatim>\<open>localStorage\<close> (a map from keys to
  strings; \<^verbatim>\<open>getItem\<close> of an absent key is \<^verbatim>\<open>null\<close>, here \<open>None\<close>) and
  \<^verbatim>\<open>window.location.href\<close>.
\<close>

record browser =
  localStorage :: "string \<rightharpoonup> string"
  location_href :: string

definition getItem :: "(string \<rightharpoonup> string) \<Rightarrow> string \<Rightarrow> string option" where
  "getItem store k = store k"

definition removeItem :: "(string \<rightharpoonup> string) \<Rightarrow> string \<Rightarrow> (string \<rightharpoonup> string)" where
  "removeItem store k = store(k := None)"







text \<open>
  Responses. An axios error carries the response when the server answered and none on a
  network failure (\<^verbatim>\<open>error.response?.status\<close>).
\<close>

record response =
  status :: int
  data :: string

record axios_error =
  error_response :: "response option"

datatype 'a settled = Fulfilled 'a | Rejected axios_error

text \<open>
  The response interceptor. Its first handler is \<^verbatim>\<open>(response) => response\<close>; its second:
  \<^verbatim>\<open>if (error.response?.status === 401) {
    localStorage.removeItem('token'); localStorage.removeItem('user');
    window.location.href = '/login';
  }
  return Promise.reject(error);\<close>
\<close>

definition response_fulfilled :: "response \<Rightarrow> response" where
  "response_fulfilled r = r"

definition response_rejected :: "browser \<Rightarrow> axios_error \<Rightarrow> browser \<times> response settled" where
  "response_rejected w error =
     (let w' = (if map_option status (error_response error) = Some 401
                then w\<lparr>localStorage := removeItem (removeItem (localStorage w) ''token'') ''user'',
                       location_href := ''/login''\<rparr>
                else w)
      in (w', Rejected error))"

text \<open>
  The client is created without \<^verbatim>\<open>validateStatus\<close>, so axios applies its default: a
  status in \<open>[200, 300)\<close> resolves the request (first handler), any other status rejects
  it with an error that carries the response (second handler).
\<close>

definition validateStatus :: "int \<Rightarrow> bool" where
  "validateStatus s = (200 \<le> s \<and> s < 300)"

definition receive :: "browser \<Rightarrow> response \<Rightarrow> browser \<times> response settled" where
  "receive w r =
     (if validateStatus (status r) then (w, Fulfilled (response_fulfilled r))
      else response_rejected w \<lparr>error_response = Some r\<rparr>)"

definition network_failure :: "browser \<Rightarrow> browser \<times> response settled" where
  "network_failure w = response_rejected w \<lparr>error_response = None\<rparr>"

section \<open>JavaScript strings and errors\<close>

text \<open>
  Strings are sequences of characters; the model covers ASCII text, on which
  \<^verbatim>\<open>toLowerCase\<close> maps \<^verbatim>\<open>A-Z\<close> to \<^verbatim>\<open>a-z\<close> and leaves every other character as it
  is. \<^verbatim>\<open>s.includes(t)\<close> searches \<open>t\<close> at every position of \<open>s\<close>.
\<close>

definition upper_chars :: string where
  "upper_chars = ''ABCDEFGHIJKLMNOPQRSTUVWXYZ''"

definition lower_chars :: string where
  "lower_chars = ''abcdefghijklmnopqrstuvwxyz''"

definition digit_chars :: string where
  "digit_chars = ''0123456789''"

definition toLowerCase_char :: "char \<Rightarrow> char" where
  "toLowerCase_char c =
     (case map_of (zip upper_chars lower_chars) c of Some d \<Rightarrow> d | None \<Rightarrow> c)"

definition toLowerCase :: "string \<Rightarrow> string" where
  "toLowerCase s = map toLowerCase_char s"

fun str_includes :: "string \<Rightarrow> string \<Rightarrow> bool" where
  "str_includes [] t = (t = [])"
| "str_includes (c # s) t = (prefix t (c # s) \<or> str_includes s t)"

text \<open>
  A field that the backend left out is \<^verbatim>\<open>undefined\<close> (or \<^verbatim>\<open>null\<close>), here \<open>None\<close>.
  Calling a method on it throws a \<^verbatim>\<open>TypeError\<close>; optional chaining \<^verbatim>\<open>x?.m()\<close> yields
  \<^verbatim>\<open>undefined\<close> instead, which \<^verbatim>\<open>|| false\<close> turns into \<^verbatim>\<open>false\<close>; a template literal
  prints it as the text \<^verbatim>\<open>undefined\<close>.
\<close>

datatype js_error = TypeError | RangeError

definition call_toLowerCase :: "string option \<Rightarrow> js_error + string" where
  "call_toLowerCase x = (case x of None \<Rightarrow> Inl TypeError | Some s \<Rightarrow> Inr (toLowerCase s))"

definition field_includes :: "string option \<Rightarrow> string \<Rightarrow> js_error + bool" where
  \<comment> \<open>\<^verbatim>\<open>x.toLowerCase().includes(searchTerm.toLowerCase())\<close>\<close>
  "field_includes x q =
     (case call_toLowerCase x of
        Inl e \<Rightarrow> Inl e
      | Inr s \<Rightarrow> Inr (str_includes s (toLowerCase q)))"

definition field_includes_opt :: "string option \<Rightarrow> string \<Rightarrow> js_error + bool" where
  \<comment> \<open>\<^verbatim>\<open>(x?.toLowerCase().includes(searchTerm.toLowerCase()) || false)\<close>\<close>
  "field_includes_opt x q =
     (case x of None \<Rightarrow> Inr False | Some s \<Rightarrow> field_includes (Some s) q)"

definition js_or :: "js_error + bool \<Rightarrow> js_error + bool \<Rightarrow> js_error + bool" where
  \<comment> \<open>\<^verbatim>\<open>a || b\<close>: the right operand is evaluated only when the left one is false\<close>
  "js_or a b = (case a of Inl e \<Rightarrow> Inl e | Inr v \<Rightarrow> if v then Inr True else b)"

fun js_filter :: "('a \<Rightarrow> js_error + bool) \<Rightarrow> 'a list \<Rightarrow> js_error + 'a list" where
  "js_filter p [] = Inr []"
| "js_filter p (x # xs) =
     (case p x of
        Inl e \<Rightarrow> Inl e
      | Inr keep \<Rightarrow>
          (case js_filter p xs of
             Inl e \<Rightarrow> Inl e
           | Inr ys \<Rightarrow> Inr (if keep then x # ys else ys)))"

definition template :: "string option \<Rightarrow> string" where
  "template x = (case x of None \<Rightarrow> ''undefined'' | Some s \<Rightarrow> s)"

section \<open>The domain model (src/types)\<close>

text \<open>
  The interfaces declare every text field as a string. What arrives from the backend
  is not checked, and the Students view guards against absent text fields, so the
  text fields the views index are optional here.
\<close>

record Student =
  Student_id :: int
  studentNumber :: "string option"
  name :: "string option"
  email :: "string option"
  password :: "string option"
  role :: string

record Course =
  Course_id :: int
  title :: "string option"
  code :: "string option"
  credits :: int
  instructor :: "string option"

record Registration =
  Registration_id :: int
  student :: Student
  course :: Course
  registrationDate :: string

record Result =
  Result_id :: int
  Result_studentNumber :: "string option"
  courseCode :: "string option"
  courseName :: "string option"
  grade :: "string option"

section \<open>The list views (pages Students, Courses, Registrations, Results)\<close>

record toast =
  toast_title :: string
  description :: string
  destructive :: bool

text \<open>
  Every component records the notifications it raised with \<^verbatim>\<open>toast(...)\<close>. The state
  of a list view that filtering and deleting read and write is, besides, the loaded
  collection (\<^verbatim>\<open>students\<close>, \<^verbatim>\<open>courses\<close>, \<^verbatim>\<open>registrations\<close>, \<^verbatim>\<open>results\<close>), the
  derived list (\<^verbatim>\<open>filteredStudents\<close>, ...), the search term and the loading flag.
\<close>

record notifier =
  toasts :: "toast list"

record 'a view = notifier +
  items :: "'a list"
  filtered :: "'a list"
  searchTerm :: string
  isLoading :: bool

subsection \<open>The filter effects\<close>

definition studentMatches :: "string \<Rightarrow> Student \<Rightarrow> js_error + bool" where
  "studentMatches q s =
     js_or (js_or (field_includes_opt (name s) q)
                  (field_includes_opt (email s) q))
           (field_includes_opt (studentNumber s) q)"

definition courseMatches :: "string \<Rightarrow> Course \<Rightarrow> js_error + bool" where
  "courseMatches q c =
     js_or (js_or (field_includes (title c) q)
                  (field_includes (code c) q))
           (field_includes (instructor c) q)"

definition registrationMatches :: "string \<Rightarrow> Registration \<Rightarrow> js_error + bool" where
  "registrationMatches q r =
     js_or (js_or (js_or (field_includes (name (student r)) q)
                         (field_includes (studentNumber (student r)) q))
                  (field_includes (title (course r)) q))
           (field_includes (code (course r)) q)"

definition resultMatches :: "string \<Rightarrow> Result \<Rightarrow> js_error + bool" where
  "resultMatches q r =
     js_or (js_or (js_or (field_includes (Result_studentNumber r) q)
                         (field_includes (courseCode r) q))
                  (field_includes (courseName r) q))
           (field_includes (grade r) q)"

text \<open>
  The effect computes \<^verbatim>\<open>items.filter(...)\<close> and stores it with \<^verbatim>\<open>setFiltered...\<close>. When
  the predicate throws, the effect is abandoned before the setter runs; the thrown
  error is returned beside the state as it is at the throw. What React does with the
  uncaught error afterwards (it unmounts the page) is outside the model.
\<close>

definition filter_effect ::
  "(string \<Rightarrow> 'a \<Rightarrow> js_error + bool) \<Rightarrow> 'a view \<Rightarrow> 'a view \<times> js_error option" where
  "filter_effect matches st =
     (case js_filter (matches (searchTerm st)) (items st) of
        Inl e \<Rightarrow> (st, Some e)
      | Inr ys \<Rightarrow> (st\<lparr>filtered := ys\<rparr>, None))"

definition Students_filter_effect :: "Student view \<Rightarrow> Student view \<times> js_error option" where
  "Students_filter_effect = filter_effect studentMatches"

definition Courses_filter_effect :: "Course view \<Rightarrow> Course view \<times> js_error option" where
  "Courses_filter_effect = filter_effect courseMatches"

definition Registrations_filter_effect ::
  "Registration view \<Rightarrow> Registration view \<times> js_error option" where
  "Registrations_filter_effect = filter_effect registrationMatches"

definition Results_filter_effect :: "Result view \<Rightarrow> Result view \<times> js_error option" where
  "Results_filter_effect = filter_effect resultMatches"

text \<open>The text fields each view indexes, in the order its predicate reads them.\<close>

definition Student_fields :: "Student \<Rightarrow> string option list" where
  "Student_fields s = [name s, email s, studentNumber s]"

definition Course_fields :: "Course \<Rightarrow> string option list" where
  "Course_fields c = [title c, code c, instructor c]"

definition Registration_fields :: "Registration \<Rightarrow> string option list" where
  "Registration_fields r =
     [name (student r), studentNumber (student r), title (course r), code (course r)]"

definition Result_fields :: "Result \<Rightarrow> string option list" where
  "Result_fields r = [Result_studentNumber r, courseCode r, courseName r, grade r]"

text \<open>
  What the specification calls a case-insensitive substring match: the lower-cased
  term occurs at some position of the lower-cased field; a term occurs in a record when
  it occurs in one of the indexed fields the record has.
\<close>

definition ci_occurs :: "string \<Rightarrow> string \<Rightarrow> bool" where
  "ci_occurs q s = (\<exists>ps ss. toLowerCase s = ps @ toLowerCase q @ ss)"

definition occurs_in :: "string \<Rightarrow> string option list \<Rightarrow> bool" where
  "occurs_in q fs = (\<exists>s. Some s \<in> set fs \<and> ci_occurs q s)"

definition substring_filter ::
  "('a \<Rightarrow> string option list) \<Rightarrow> 'a list \<Rightarrow> string \<Rightarrow> 'a list \<Rightarrow> bool" where
  "substring_filter indexed xs q ys =
     ((\<forall>pre r post.
         xs = pre @ r # post \<and> occurs_in q (indexed r) \<and>
         (\<forall>x \<in> set (pre @ post). \<not> occurs_in q (indexed x)) \<longrightarrow> ys = [r]) \<and>
      ((\<forall>x \<in> set xs. \<not> occurs_in q (indexed x)) \<longrightarrow> ys = []) \<and>
      (q = [] \<and> (\<forall>x \<in> set xs. \<exists>s. Some s \<in> set (indexed x)) \<longrightarrow> ys = xs))"


subsection \<open>The delete handlers\<close>

datatype api_call =
    DeleteStudent int | DeleteCourse int | DeleteRegistration int | DeleteResult int
  | GetStudents | GetCourses | GetRegistrations | GetResults

datatype effect = Confirm string | Call api_call

definition error_toast :: "string \<Rightarrow> toast" where
  "error_toast msg = \<lparr>toast_title = ''Error'', description = msg, destructive = True\<rparr>"

definition success_toast :: "string \<Rightarrow> toast" where
  "success_toast msg = \<lparr>toast_title = ''Success'', description = msg, destructive = False\<rparr>"

definition notify :: "toast \<Rightarrow> 'z notifier_scheme \<Rightarrow> 'z notifier_scheme" where
  "notify t st = st\<lparr>toasts := toasts st @ [t]\<rparr>"

text \<open>
  \<^verbatim>\<open>handleDeleteStudent\<close>: return when \<^verbatim>\<open>window.confirm\<close> answers no; otherwise await
  \<^verbatim>\<open>deleteStudent\<close>, notify, and \<^verbatim>\<open>setStudents(students.filter(s => s.id !== student.id))\<close>;
  a rejected delete only notifies. The answer of the prompt and the outcome of the
  request are inputs; the prompts and requests made are returned in order.
\<close>

definition handleDeleteStudent ::
  "Student view \<Rightarrow> Student \<Rightarrow> bool \<Rightarrow> unit settled \<Rightarrow> Student view \<times> effect list" where
  "handleDeleteStudent st s confirmed deleted =
     (let prompt = Confirm (''Are you sure you want to delete '' @ template (name s) @ ''?'') in
      if \<not> confirmed then (st, [prompt])
      else
        (case deleted of
           Fulfilled _ \<Rightarrow>
             ((notify \<lparr>toast_title = ''Student deleted'',
                       description = template (name s) @ '' has been removed from the system'',
                       destructive = False\<rparr> st)
                \<lparr>items := filter (\<lambda>x. Student_id x \<noteq> Student_id s) (items st)\<rparr>,
              [prompt, Call (DeleteStudent (Student_id s))])
         | Rejected e \<Rightarrow>
             (notify (error_toast ''Failed to delete student'') st,
              [prompt, Call (DeleteStudent (Student_id s))])))"

text \<open>
  \<^verbatim>\<open>loadCourses\<close>, \<^verbatim>\<open>loadRegistrations\<close>, \<^verbatim>\<open>loadResults\<close>: store the fetched collection, or
  notify when the fetch is rejected; clear the loading flag either way.
\<close>

definition load_collection :: "string \<Rightarrow> 'a view \<Rightarrow> 'a list settled \<Rightarrow> 'a view" where
  "load_collection failure st fetched =
     (case fetched of
        Fulfilled d \<Rightarrow> st\<lparr>items := d, isLoading := False\<rparr>
      | Rejected e \<Rightarrow> (notify (error_toast failure) st)\<lparr>isLoading := False\<rparr>)"

definition loadCourses :: "Course view \<Rightarrow> Course list settled \<Rightarrow> Course view" where
  "loadCourses = load_collection ''Failed to load courses''"

definition loadRegistrations ::
  "Registration view \<Rightarrow> Registration list settled \<Rightarrow> Registration view" where
  "loadRegistrations = load_collection ''Failed to load registrations''"

definition loadResults :: "Result view \<Rightarrow> Result list settled \<Rightarrow> Result view" where
  "loadResults = load_collection ''Failed to load results''"

text \<open>
  \<^verbatim>\<open>handleDeleteCourse\<close>, \<^verbatim>\<open>handleDeleteRegistration\<close>, \<^verbatim>\<open>handleDeleteResult\<close>: inside
  \<^verbatim>\<open>if (window.confirm(...))\<close>, await the delete, notify, and call the view's load
  function; a rejected delete only notifies.
\<close>

definition delete_then_reload ::
  "string \<Rightarrow> api_call \<Rightarrow> string \<Rightarrow> string \<Rightarrow> api_call \<Rightarrow> ('a view \<Rightarrow> 'a list settled \<Rightarrow> 'a view) \<Rightarrow>
   'a view \<Rightarrow> bool \<Rightarrow> unit settled \<Rightarrow> 'a list settled \<Rightarrow> 'a view \<times> effect list" where
  "delete_then_reload question del done failed get load st confirmed deleted refetched =
     (if confirmed then
        (case deleted of
           Fulfilled _ \<Rightarrow>
             (load (notify (success_toast done) st) refetched, [Confirm question, Call del, Call get])
         | Rejected e \<Rightarrow>
             (notify (error_toast failed) st, [Confirm question, Call del]))
      else (st, [Confirm question]))"

definition handleDeleteCourse ::
  "Course view \<Rightarrow> Course \<Rightarrow> bool \<Rightarrow> unit settled \<Rightarrow> Course list settled \<Rightarrow>
   Course view \<times> effect list" where
  "handleDeleteCourse st c =
     delete_then_reload
       (''Are you sure you want to delete '' @ [CHR 0x22] @ template (title c) @ [CHR 0x22] @ ''?'')
       (DeleteCourse (Course_id c))
       ''Course deleted successfully'' ''Failed to delete course''
       GetCourses loadCourses st"

definition handleDeleteRegistration ::
  "Registration view \<Rightarrow> Registration \<Rightarrow> bool \<Rightarrow> unit settled \<Rightarrow> Registration list settled \<Rightarrow>
   Registration view \<times> effect list" where
  "handleDeleteRegistration st r =
     delete_then_reload
       (''Are you sure you want to delete the registration for '' @ template (name (student r))
          @ '' in '' @ template (title (course r)) @ ''?'')
       (DeleteRegistration (Registration_id r))
       ''Registration deleted successfully'' ''Failed to delete registration''
       GetRegistrations loadRegistrations st"

definition handleDeleteResult ::
  "Result view \<Rightarrow> Result \<Rightarrow> bool \<Rightarrow> unit settled \<Rightarrow> Result list settled \<Rightarrow>
   Result view \<times> effect list" where
  "handleDeleteResult st r =
     delete_then_reload
       (''Are you sure you want to delete the result for '' @ template (Result_studentNumber r)
          @ '' in '' @ template (courseCode r) @ ''?'')
       (DeleteResult (Result_id r))
       ''Result deleted successfully'' ''Failed to delete result''
       GetResults loadResults st"

text \<open>
  Two shapes of a handler's trace: the prompt comes first and only requests follow it;
  no request is made at all.
\<close>

definition confirm_first :: "effect list \<Rightarrow> bool" where
  "confirm_first tr = (\<exists>msg rest. tr = Confirm msg # rest \<and> (\<forall>e \<in> set rest. \<exists>c. e = Call c))"

definition no_request :: "effect list \<Rightarrow> bool" where
  "no_request tr = (\<forall>c. Call c \<notin> set tr)"

section \<open>JavaScript numbers, \<^verbatim>\<open>parseInt\<close>, \<^verbatim>\<open>toString\<close> and dates\<close>

text \<open>
  A \<^verbatim>\<open>number\<close> is a finite value, \<^verbatim>\<open>NaN\<close> or an infinity. Finite values are modelled
  as rationals: comparisons of doubles are exact, and the integers that occur as record
  ids are represented exactly up to \<open>2^53\<close>. Every comparison with \<^verbatim>\<open>NaN\<close> is false.
\<close>

datatype jsnumber = Num rat | NaN | PosInfinity | NegInfinity


definition digit_char :: "nat \<Rightarrow> char" where
  "digit_char d = digit_chars ! d"

fun digits :: "nat \<Rightarrow> string" where
  "digits n = (if n < 10 then [digit_char n] else digits (n div 10) @ [digit_char (n mod 10)])"

declare digits.simps [simp del]

definition Number_toString :: "int \<Rightarrow> string" where
  \<comment> \<open>\<^verbatim>\<open>id.toString()\<close> of an integer below \<open>10^21\<close> in magnitude\<close>
  "Number_toString n = (if n < 0 then ''-'' @ digits (nat (- n)) else digits (nat n))"

text \<open>
  \<^verbatim>\<open>parseInt(s)\<close> without a radix: skip leading white space, read an optional sign, take
  radix 16 after a \<^verbatim>\<open>0x\<close> or \<^verbatim>\<open>0X\<close> prefix and radix 10 otherwise, read the longest
  run of digits of that radix, and return \<^verbatim>\<open>NaN\<close> when the run is empty.
\<close>

definition is_whitespace :: "char \<Rightarrow> bool" where
  "is_whitespace c = (c \<in> set [CHR 0x20, CHR 0x09, CHR 0x0A, CHR 0x0B, CHR 0x0C, CHR 0x0D])"

definition digit_value :: "char \<Rightarrow> nat option" where
  "digit_value c =
     map_of (zip (digit_chars @ ''abcdef'' @ ''ABCDEF'')
               [0, 1, 2, 3, 4, 5, 6, 7, 8, 9, 10, 11, 12, 13, 14, 15, 10, 11, 12, 13, 14, 15]) c"

definition is_digit_of :: "nat \<Rightarrow> char \<Rightarrow> bool" where
  "is_digit_of radix c = (case digit_value c of None \<Rightarrow> False | Some d \<Rightarrow> d < radix)"

definition digits_value :: "nat \<Rightarrow> string \<Rightarrow> nat" where
  \<comment> \<open>applied to runs of digits only, where \<open>digit_value\<close> is defined\<close>
  "digits_value radix ds = foldl (\<lambda>acc c. acc * radix + the (digit_value c)) 0 ds"

definition parseInt :: "string \<Rightarrow> jsnumber" where
  "parseInt s =
     (let s1 = dropWhile is_whitespace s;
          negative = (s1 \<noteq> [] \<and> hd s1 = CHR ''-'');
          s2 = (if s1 \<noteq> [] \<and> (hd s1 = CHR ''+'' \<or> hd s1 = CHR ''-'') then tl s1 else s1);
          hex = (take 2 s2 = ''0x'' \<or> take 2 s2 = ''0X'');
          radix = (if hex then 16 else 10);
          s3 = (if hex then drop 2 s2 else s2);
          z = takeWhile (is_digit_of radix) s3
      in if z = [] then NaN
         else Num (of_int ((if negative then - 1 else 1) * int (digits_value radix z))))"

text \<open>
  A \<^verbatim>\<open>Date\<close> is either invalid or a point in time, seen through its UTC fields.
  \<^verbatim>\<open>toISOString\<close> throws a \<^verbatim>\<open>RangeError\<close> on an invalid date and otherwise prints
  \<^verbatim>\<open>YYYY-MM-DDTHH:mm:ss.sssZ\<close>, with a sign and six digits for a year outside
  \<open>0..9999\<close>.
\<close>

record utc_fields =
  year :: int
  month :: nat
  day :: nat
  hours :: nat
  minutes :: nat
  seconds :: nat
  milliseconds :: nat

datatype Date = InvalidDate | ValidDate utc_fields

definition pad :: "nat \<Rightarrow> nat \<Rightarrow> string" where
  "pad w n = replicate (w - length (digits n)) (CHR ''0'') @ digits n"

definition iso_year :: "int \<Rightarrow> string" where
  "iso_year y =
     (if 0 \<le> y \<and> y \<le> 9999 then pad 4 (nat y)
      else (if y < 0 then ''-'' else ''+'') @ pad 6 (nat \<bar>y\<bar>))"

definition toISOString :: "Date \<Rightarrow> js_error + string" where
  "toISOString d =
     (case d of
        InvalidDate \<Rightarrow> Inl RangeError
      | ValidDate t \<Rightarrow>
          Inr (iso_year (year t) @ ''-'' @ pad 2 (month t) @ ''-'' @ pad 2 (day t) @ ''T'' @
               pad 2 (hours t) @ '':'' @ pad 2 (minutes t) @ '':'' @ pad 2 (seconds t) @ ''.'' @
               pad 3 (milliseconds t) @ ''Z''))"

section \<open>The forms (CourseForm, RegistrationForm, ResultForm)\<close>

text \<open>
  A form holds its \<^verbatim>\<open>open\<close> flag (owned by the parent and changed through
  \<^verbatim>\<open>onOpenChange\<close>), the submitting flag, the current and the default field values, and
  the field errors of the last validation, each a field name with a message. The
  resolver reports the first issue of every field.
\<close>

type_synonym issue = "string \<times> string"

record 'v form = notifier +
  isOpen :: bool
  isSubmitting :: bool
  form_values :: 'v
  defaultValues :: 'v
  errors :: "issue list"

fun first_per_field :: "issue list \<Rightarrow> issue list" where
  "first_per_field [] = []"
| "first_per_field (i # is) = i # first_per_field (filter (\<lambda>j. fst j \<noteq> fst i) is)"

definition reset :: "('v, 'z) form_scheme \<Rightarrow> ('v, 'z) form_scheme" where
  \<comment> \<open>\<^verbatim>\<open>form.reset()\<close>\<close>
  "reset st = st\<lparr>form_values := defaultValues st, errors := []\<rparr>"

subsection \<open>CourseForm\<close>








text \<open>
  \<^verbatim>\<open>handleSubmit\<close> of the course form: await \<^verbatim>\<open>onSubmit(data)\<close>; on success notify,
  close and reset; on rejection notify; clear the submitting flag either way. The
  outcome of \<^verbatim>\<open>onSubmit\<close> is an input, and the payloads it was called with are returned.
  \<open>editing\<close> says whether the \<^verbatim>\<open>course\<close> property is set.
\<close>

definition submit_succeeded :: "string \<Rightarrow> ('v, 'z) form_scheme \<Rightarrow> ('v, 'z) form_scheme" where
  "submit_succeeded msg st =
     (reset ((notify (success_toast msg) st)\<lparr>isOpen := False\<rparr>))\<lparr>isSubmitting := False\<rparr>"

definition submit_failed :: "string \<Rightarrow> ('v, 'z) form_scheme \<Rightarrow> ('v, 'z) form_scheme" where
  "submit_failed msg st = (notify (error_toast msg) st)\<lparr>isSubmitting := False\<rparr>"




subsection \<open>RegistrationForm and ResultForm\<close>

record SelectData =
  studentId :: string
  courseId :: string

record RegistrationFormData = SelectData +
  form_registrationDate :: Date

record ResultFormData = SelectData +
  form_grade :: string

record IdRequest =
  studentId_num :: jsnumber
  courseId_num :: jsnumber

record RegistrationRequest = IdRequest +
  registrationDate_iso :: string

record ResultRequest = IdRequest +
  grade_str :: string

record 'v select_form = "'v form" +
  students :: "Student list"
  courses :: "Course list"
  isLoadingData :: bool

definition registrationSchema :: "RegistrationFormData \<Rightarrow> issue list" where
  "registrationSchema d =
     (if length (studentId d) < 1 then [(''studentId'', ''Please select a student'')] else []) @
     (if length (courseId d) < 1 then [(''courseId'', ''Please select a course'')] else []) @
     (if form_registrationDate d = InvalidDate then [(''registrationDate'', ''Invalid date'')]
      else [])"

definition resultSchema :: "ResultFormData \<Rightarrow> issue list" where
  "resultSchema d =
     (if length (studentId d) < 1 then [(''studentId'', ''Please select a student'')] else []) @
     (if length (courseId d) < 1 then [(''courseId'', ''Please select a course'')] else []) @
     (if length (form_grade d) < 1 then [(''grade'', ''Please select a grade'')] else [])"

text \<open>
  \<^verbatim>\<open>loadData\<close>, the same in both forms: set the loading flag, await
  \<^verbatim>\<open>Promise.all([getStudents(), getCourses()])\<close>, store both lists, or notify once when
  the join rejects; clear the loading flag either way. \<^verbatim>\<open>Promise.all\<close> fulfils with
  both values when both requests fulfil and rejects when one of them rejects.
\<close>

definition promise_all :: "'a settled \<Rightarrow> 'b settled \<Rightarrow> ('a \<times> 'b) settled" where
  "promise_all a b =
     (case a of
        Rejected e \<Rightarrow> Rejected e
      | Fulfilled x \<Rightarrow> (case b of Rejected e \<Rightarrow> Rejected e | Fulfilled y \<Rightarrow> Fulfilled (x, y)))"

definition loadData_begin :: "('v, 'z) select_form_scheme \<Rightarrow> ('v, 'z) select_form_scheme" where
  "loadData_begin st = st\<lparr>isLoadingData := True\<rparr>"

definition loadData_settle ::
  "('v, 'z) select_form_scheme \<Rightarrow> Student list settled \<Rightarrow> Course list settled \<Rightarrow>
   ('v, 'z) select_form_scheme" where
  "loadData_settle st s c =
     (case promise_all s c of
        Fulfilled (studentsData, coursesData) \<Rightarrow>
          st\<lparr>students := studentsData, courses := coursesData, isLoadingData := False\<rparr>
      | Rejected e \<Rightarrow>
          (notify (error_toast ''Failed to load students and courses data'') st)
            \<lparr>isLoadingData := False\<rparr>)"

definition loadData ::
  "('v, 'z) select_form_scheme \<Rightarrow> Student list settled \<times> Course list settled \<Rightarrow>
   ('v, 'z) select_form_scheme" where
  "loadData st fetched = loadData_settle (loadData_begin st) (fst fetched) (snd fetched)"

definition renders_selects :: "('v, 'z) select_form_scheme \<Rightarrow> bool" where
  \<comment> \<open>the select boxes are rendered unless \<^verbatim>\<open>isLoadingData\<close> shows the spinner\<close>
  "renders_selects st = (isOpen st \<and> \<not> isLoadingData st)"

text \<open>The effect of the registration form on \<^verbatim>\<open>[open]\<close>: \<^verbatim>\<open>if (open) loadData()\<close>.\<close>

definition RegistrationForm_open_effect ::
  "RegistrationFormData select_form \<Rightarrow> Student list settled \<times> Course list settled \<Rightarrow>
   RegistrationFormData select_form" where
  "RegistrationForm_open_effect st fetched = (if isOpen st then loadData st fetched else st)"

text \<open>
  The effect of the result form on \<^verbatim>\<open>[open, result]\<close>:
  \<^verbatim>\<open>if (open) {
    loadData();
    if (result) {
      loadData().then(() => {
        const student = students.find(s => s.studentNumber === result.studentNumber);
        const course = courses.find(c => c.code === result.courseCode);
        if (student) form.setValue('studentId', student.id.toString());
        if (course) form.setValue('courseId', course.id.toString());
      });
    }
  }\<close>
  With a result to edit, \<^verbatim>\<open>loadData\<close> runs twice, each run with its own pair of
  requests. \<^verbatim>\<open>loadData\<close> never rejects, so the callback always runs; the \<^verbatim>\<open>students\<close>
  and \<^verbatim>\<open>courses\<close> it searches are the ones of the render that started the effect (the
  state \<open>st\<close>), not the lists the requests returned.
\<close>

definition setValue_studentId ::
  "string \<Rightarrow> ResultFormData select_form \<Rightarrow> ResultFormData select_form" where
  "setValue_studentId v st = st\<lparr>form_values := (form_values st)\<lparr>studentId := v\<rparr>\<rparr>"

definition setValue_courseId ::
  "string \<Rightarrow> ResultFormData select_form \<Rightarrow> ResultFormData select_form" where
  "setValue_courseId v st = st\<lparr>form_values := (form_values st)\<lparr>courseId := v\<rparr>\<rparr>"

definition ResultForm_open_effect ::
  "Result option \<Rightarrow> ResultFormData select_form \<Rightarrow>
   Student list settled \<times> Course list settled \<Rightarrow> Student list settled \<times> Course list settled \<Rightarrow>
   ResultFormData select_form" where
  "ResultForm_open_effect result st first second =
     (if isOpen st then
        (let st1 = loadData st first in
         case result of
           None \<Rightarrow> st1
         | Some r \<Rightarrow>
             (let st2 = loadData st1 second;
                  student = find (\<lambda>s. studentNumber s = Result_studentNumber r) (students st);
                  course = find (\<lambda>c. code c = courseCode r) (courses st);
                  st3 = (case student of
                           None \<Rightarrow> st2
                         | Some s \<Rightarrow> setValue_studentId (Number_toString (Student_id s)) st2)
              in (case course of
                    None \<Rightarrow> st3
                  | Some c \<Rightarrow> setValue_courseId (Number_toString (Course_id c)) st3)))
      else st)"

text \<open>
  The submit handlers. The argument of \<^verbatim>\<open>onSubmit\<close> is built inside the \<^verbatim>\<open>try\<close> block:
  \<^verbatim>\<open>parseInt\<close> of both select values and, in the registration form,
  \<^verbatim>\<open>registrationDate.toISOString()\<close>, whose \<^verbatim>\<open>RangeError\<close> would be caught like a
  rejection, before \<^verbatim>\<open>onSubmit\<close> is called.
\<close>

definition RegistrationForm_handleSubmit ::
  "bool \<Rightarrow> RegistrationFormData select_form \<Rightarrow> RegistrationFormData \<Rightarrow> unit settled \<Rightarrow>
   RegistrationFormData select_form \<times> RegistrationRequest list" where
  "RegistrationForm_handleSubmit editing st d outcome =
     (let failure = ''Failed to '' @ (if editing then ''update'' else ''create'') @
                    '' registration. Please try again.'' in
      case toISOString (form_registrationDate d) of
        Inl e \<Rightarrow> (submit_failed failure st, [])
      | Inr isoString \<Rightarrow>
          (let request = \<lparr>studentId_num = parseInt (studentId d),
                          courseId_num = parseInt (courseId d),
                          registrationDate_iso = isoString\<rparr> in
           case outcome of
             Fulfilled _ \<Rightarrow>
               (submit_succeeded
                  (''Registration '' @ (if editing then ''updated'' else ''created'') @
                   '' successfully'') st, [request])
           | Rejected e \<Rightarrow> (submit_failed failure st, [request])))"

definition ResultForm_handleSubmit ::
  "bool \<Rightarrow> ResultFormData select_form \<Rightarrow> ResultFormData \<Rightarrow> unit settled \<Rightarrow>
   ResultFormData select_form \<times> ResultRequest list" where
  "ResultForm_handleSubmit editing st d outcome =
     (let request = \<lparr>studentId_num = parseInt (studentId d),
                     courseId_num = parseInt (courseId d),
                     grade_str = form_grade d\<rparr> in
      case outcome of
        Fulfilled _ \<Rightarrow>
          (submit_succeeded
             (''Result '' @ (if editing then ''updated'' else ''recorded'') @ '' successfully'')
             st, [request])
      | Rejected e \<Rightarrow>
          (submit_failed
             (''Failed to '' @ (if editing then ''update'' else ''record'') @
              '' result. Please try again.'') st, [request]))"

definition RegistrationForm_submit ::
  "bool \<Rightarrow> RegistrationFormData select_form \<Rightarrow> unit settled \<Rightarrow>
   RegistrationFormData select_form \<times> RegistrationRequest list" where
  "RegistrationForm_submit editing st outcome =
     (if registrationSchema (form_values st) = []
      then RegistrationForm_handleSubmit editing (st\<lparr>errors := []\<rparr>) (form_values st) outcome
      else (st\<lparr>errors := first_per_field (registrationSchema (form_values st))\<rparr>, []))"

definition ResultForm_submit ::
  "bool \<Rightarrow> ResultFormData select_form \<Rightarrow> unit settled \<Rightarrow>
   ResultFormData select_form \<times> ResultRequest list" where
  "ResultForm_submit editing st outcome =
     (if resultSchema (form_values st) = []
      then ResultForm_handleSubmit editing (st\<lparr>errors := []\<rparr>) (form_values st) outcome
      else (st\<lparr>errors := first_per_field (resultSchema (form_values st))\<rparr>, []))"

text \<open>The one notification \<^verbatim>\<open>loadData\<close> can raise.\<close>

definition load_failure :: toast where
  "load_failure = error_toast ''Failed to load students and courses data''"

text \<open>
  The shape of an ISO-8601 date-time in UTC with milliseconds, and the ranges of the UTC
  fields of a date whose year needs four digits.
\<close>

definition iso_8601 :: "string \<Rightarrow> bool" where
  "iso_8601 s =
     (\<exists>Y M D h m sec ms.
        s = Y @ ''-'' @ M @ ''-'' @ D @ ''T'' @ h @ '':'' @ m @ '':'' @ sec @ ''.'' @ ms @ ''Z'' \<and>
        length Y = 4 \<and> length M = 2 \<and> length D = 2 \<and> length h = 2 \<and> length m = 2 \<and>
        length sec = 2 \<and> length ms = 3 \<and>
        (\<forall>c \<in> set (Y @ M @ D @ h @ m @ sec @ ms). c \<in> set digit_chars))"

definition utc_in_range :: "utc_fields \<Rightarrow> bool" where
  "utc_in_range t =
     (0 \<le> year t \<and> year t \<le> 9999 \<and> 1 \<le> month t \<and> month t \<le> 12 \<and> 1 \<le> day t \<and> day t \<le> 31 \<and>
      hours t < 24 \<and> minutes t < 60 \<and> seconds t < 60 \<and> milliseconds t < 1000)"

text \<open>
  What a submit handler leaves behind, from the state \<open>st\<close> it started in: after a
  fulfilled callback the form is closed, its fields are back at their defaults and one
  success notification was added; after a rejected one the form is as open as before
  with its fields untouched and one error notification was added.
\<close>

definition closed_and_reset :: "('v, 'z) form_scheme \<Rightarrow> ('v, 'z) form_scheme \<Rightarrow> bool" where
  "closed_and_reset st st' =
     (\<not> isOpen st' \<and> form_values st' = defaultValues st \<and> errors st' = [] \<and> \<not> isSubmitting st' \<and>
      (\<exists>msg. toasts st' = toasts st @ [success_toast msg]))"

definition left_open_with_error :: "('v, 'z) form_scheme \<Rightarrow> ('v, 'z) form_scheme \<Rightarrow> bool" where
  "left_open_with_error st st' =
     (isOpen st' = isOpen st \<and> form_values st' = form_values st \<and> \<not> isSubmitting st' \<and>
      (\<exists>msg. toasts st' = toasts st @ [error_toast msg]))"

section \<open>Sample data\<close>

text \<open>Records, views and forms at which the properties below are instantiated.\<close>

definition alice :: Student where
  "alice = \<lparr>Student_id = 1, studentNumber = Some ''S001'', name = Some ''Alice'',
             email = Some ''alice@uni.edu'', password = None, role = ''student''\<rparr>"

definition bob :: Student where
  "bob = \<lparr>Student_id = 2, studentNumber = Some ''S002'', name = Some ''Bob'',
           email = Some ''bob@uni.edu'', password = None, role = ''student''\<rparr>"

definition nameless :: Student where
  "nameless = \<lparr>Student_id = 3, studentNumber = None, name = None, email = None,
                password = None, role = ''student''\<rparr>"

definition cs101 :: Course where
  "cs101 = \<lparr>Course_id = 10, title = Some ''Intro to CS'', code = Some ''CS101'', credits = 3,
             instructor = Some ''Dr. Smith''\<rparr>"

definition ma201 :: Course where
  "ma201 = \<lparr>Course_id = 20, title = Some ''Linear Algebra'', code = Some ''MA201'', credits = 4,
             instructor = Some ''Dr. Jones''\<rparr>"

definition untitled :: Course where
  "untitled = \<lparr>Course_id = 30, title = None, code = Some ''PH301'', credits = 2,
                instructor = Some ''Dr. Brown''\<rparr>"


definition alice_in_cs101 :: Registration where
  "alice_in_cs101 = \<lparr>Registration_id = 100, student = alice, course = cs101,
                      registrationDate = ''2024-03-15''\<rparr>"

definition bob_in_ma201 :: Registration where
  "bob_in_ma201 = \<lparr>Registration_id = 200, student = bob, course = ma201,
                    registrationDate = ''2024-03-16''\<rparr>"

definition nameless_in_cs101 :: Registration where
  "nameless_in_cs101 = \<lparr>Registration_id = 300, student = nameless, course = cs101,
                         registrationDate = ''2024-03-17''\<rparr>"

definition alice_cs101_A :: Result where
  "alice_cs101_A = \<lparr>Result_id = 1000, Result_studentNumber = Some ''S001'',
                     courseCode = Some ''CS101'', courseName = Some ''Intro to CS'',
                     grade = Some ''A''\<rparr>"

definition bob_ma201_B :: Result where
  "bob_ma201_B = \<lparr>Result_id = 2000, Result_studentNumber = Some ''S002'',
                   courseCode = Some ''MA201'', courseName = Some ''Linear Algebra'',
                   grade = Some ''B+''\<rparr>"

definition unnumbered_result :: Result where
  "unnumbered_result = \<lparr>Result_id = 3000, Result_studentNumber = None,
                         courseCode = Some ''CS101'', courseName = Some ''Intro to CS'',
                         grade = Some ''C''\<rparr>"

definition loaded :: "'a list \<Rightarrow> string \<Rightarrow> 'a view" where
  \<comment> \<open>a view that has loaded the collection and holds the search term\<close>
  "loaded xs q = \<lparr>toasts = [], items = xs, filtered = [], searchTerm = q, isLoading = False\<rparr>"


definition opened_select :: "'v \<Rightarrow> 'v \<Rightarrow> Student list \<Rightarrow> Course list \<Rightarrow> 'v select_form" where
  \<comment> \<open>an open registration or result form that holds the given lists\<close>
  "opened_select v dv ss cs =
     \<lparr>toasts = [], isOpen = True, isSubmitting = False, form_values = v, defaultValues = dv,
      errors = [], students = ss, courses = cs, isLoadingData = False\<rparr>"

definition logged_in :: browser where
  "logged_in = \<lparr>localStorage = [''token'' \<mapsto> ''abc'', ''user'' \<mapsto> ''admin'', ''theme'' \<mapsto> ''dark''],
                 location_href = ''/students''\<rparr>"




definition blank_result :: ResultFormData where
  "blank_result = \<lparr>studentId = '''', courseId = '''', form_grade = ''A''\<rparr>"

definition blank_registration :: RegistrationFormData where
  "blank_registration = \<lparr>studentId = '''', courseId = '''', form_registrationDate = InvalidDate\<rparr>"

definition march_15 :: utc_fields where
  "march_15 = \<lparr>year = 2024, month = 3, day = 15, hours = 9, minutes = 30, seconds = 0,
                milliseconds = 7\<rparr>"

definition unreachable :: axios_error where
  "unreachable = \<lparr>error_response = None\<rparr>"

section \<open>Properties of the API client\<close>

lemma receive_401:
  "status r = 401 \<Longrightarrow>
     receive w r =
       (w\<lparr>localStorage := (localStorage w)(''token'' := None, ''user'' := None),
          location_href := ''/login''\<rparr>,
        Rejected \<lparr>error_response = Some r\<rparr>)"
  by (simp add: receive_def validateStatus_def response_rejected_def removeItem_def)

lemma receive_other:
  "status r \<noteq> 401 \<Longrightarrow> fst (receive w r) = w"
  by (simp add: receive_def response_rejected_def)

text \<open>
  C1. A response with status 401 clears the stored token and the stored user record
  (every other key of the storage is kept), sets the location to \<^verbatim>\<open>/login\<close> and still
  rejects with the error that carries the response; a response with any other status,
  and a failure without a response, leave the browser state (storage and location) as
  it was.
\<close>

theorem response_interceptor_401:
  "(status r = 401 \<longrightarrow>
      getItem (localStorage (fst (receive w r))) ''token'' = None \<and>
      getItem (localStorage (fst (receive w r))) ''user'' = None \<and>
      (\<forall>k. k \<noteq> ''token'' \<and> k \<noteq> ''user'' \<longrightarrow>
           getItem (localStorage (fst (receive w r))) k = getItem (localStorage w) k) \<and>
      location_href (fst (receive w r)) = ''/login'' \<and>
      snd (receive w r) = Rejected \<lparr>error_response = Some r\<rparr>) \<and>
   (status r \<noteq> 401 \<longrightarrow> fst (receive w r) = w) \<and>
   fst (network_failure w) = w"
proof (intro conjI impI allI)
  assume s: "status r = 401"
  note eq = receive_401 [OF s, of w]
  show "getItem (localStorage (fst (receive w r))) ''token'' = None"
    by (simp add: eq getItem_def)
  show "getItem (localStorage (fst (receive w r))) ''user'' = None"
    by (simp add: eq getItem_def)
  show "location_href (fst (receive w r)) = ''/login''"
    by (simp add: eq)
  show "snd (receive w r) = Rejected \<lparr>error_response = Some r\<rparr>"
    by (simp add: eq)
  fix k :: string
  assume "k \<noteq> ''token'' \<and> k \<noteq> ''user''"
  then show "getItem (localStorage (fst (receive w r))) k = getItem (localStorage w) k"
    by (simp add: eq getItem_def)
next
  assume "status r \<noteq> 401"
  then show "fst (receive w r) = w"
    by (rule receive_other)
next
  show "fst (network_failure w) = w"
    by (simp add: network_failure_def response_rejected_def)
qed

theorem response_interceptor_401_witness:
  "getItem (localStorage (fst (receive logged_in \<lparr>status = 401, data = ''''\<rparr>))) ''token'' = None \<and>
   getItem (localStorage (fst (receive logged_in \<lparr>status = 401, data = ''''\<rparr>))) ''user'' = None \<and>
   getItem (localStorage (fst (receive logged_in \<lparr>status = 401, data = ''''\<rparr>))) ''theme''
     = Some ''dark'' \<and>
   location_href (fst (receive logged_in \<lparr>status = 401, data = ''''\<rparr>)) = ''/login'' \<and>
   snd (receive logged_in \<lparr>status = 401, data = ''''\<rparr>)
     = Rejected \<lparr>error_response = Some \<lparr>status = 401, data = ''''\<rparr>\<rparr> \<and>
   fst (receive logged_in \<lparr>status = 500, data = ''''\<rparr>) = logged_in"
proof -
  let ?r = "\<lparr>status = 401, data = ''''\<rparr>"
  let ?s = "\<lparr>status = 500, data = ''''\<rparr>"
  have a: "status ?r = 401" by simp
  have b: "status ?s \<noteq> 401" by simp
  have c: "''theme'' \<noteq> ''token'' \<and> ''theme'' \<noteq> ''user''" by simp
  note t = response_interceptor_401 [of ?r logged_in, THEN conjunct1, THEN mp, OF a]
  note u = response_interceptor_401 [of ?s logged_in, THEN conjunct2, THEN conjunct1, THEN mp, OF b]
  have "getItem (localStorage (fst (receive logged_in ?r))) ''theme''
           = getItem (localStorage logged_in) ''theme''"
    by (rule t [THEN conjunct2, THEN conjunct2, THEN conjunct1, THEN spec, THEN mp, OF c])
  moreover have "getItem (localStorage logged_in) ''theme'' = Some ''dark''"
    by (simp add: getItem_def logged_in_def)
  ultimately have k: "getItem (localStorage (fst (receive logged_in ?r))) ''theme'' = Some ''dark''"
    by simp
  from t [THEN conjunct1] t [THEN conjunct2, THEN conjunct1] k
    t [THEN conjunct2, THEN conjunct2, THEN conjunct2, THEN conjunct1]
    t [THEN conjunct2, THEN conjunct2, THEN conjunct2, THEN conjunct2] u
  show ?thesis by (intro conjI)
qed



section \<open>Properties of the list filters\<close>

lemma str_includes_iff: "str_includes s t \<longleftrightarrow> (\<exists>ps ss. s = ps @ t @ ss)"
proof -
  have "str_includes s t = sublist t s"
    by (induction s) (auto simp: sublist_Cons_right)
  then show ?thesis by (simp add: sublist_def)
qed

lemma field_includes_Some: "field_includes (Some s) q = Inr (ci_occurs q s)"
  by (simp add: field_includes_def call_toLowerCase_def ci_occurs_def str_includes_iff)

lemma field_includes_None: "field_includes None q = Inl TypeError"
  by (simp add: field_includes_def call_toLowerCase_def)

lemma field_includes_opt_eq: "field_includes_opt x q = Inr (occurs_in q [x])"
  by (cases x) (simp_all add: field_includes_opt_def field_includes_Some occurs_in_def)

lemma field_includes_present: "field_includes (Some s) q = Inr (occurs_in q [Some s])"
  by (simp add: field_includes_Some occurs_in_def)

lemma js_or_Inr: "js_or (Inr a) (Inr b) = Inr (a \<or> b)"
  by (simp add: js_or_def)

lemma occurs_in_Cons: "occurs_in q (x # fs) \<longleftrightarrow> occurs_in q [x] \<or> occurs_in q fs"
  by (auto simp: occurs_in_def)

lemma studentMatches_eq: "studentMatches q s = Inr (occurs_in q (Student_fields s))"
  by (simp add: studentMatches_def Student_fields_def field_includes_opt_eq js_or_Inr
      occurs_in_Cons [of q _ "_ # _"] disj_assoc)

lemma courseMatches_present:
  "None \<notin> set (Course_fields c) \<Longrightarrow> courseMatches q c = Inr (occurs_in q (Course_fields c))"
  by (cases "title c"; cases "code c"; cases "instructor c")
    (simp_all add: courseMatches_def Course_fields_def field_includes_present js_or_Inr
      occurs_in_Cons [of q _ "_ # _"] disj_assoc)

lemma registrationMatches_present:
  "None \<notin> set (Registration_fields r) \<Longrightarrow>
     registrationMatches q r = Inr (occurs_in q (Registration_fields r))"
  by (cases "name (student r)"; cases "studentNumber (student r)"; cases "title (course r)";
      cases "code (course r)")
    (simp_all add: registrationMatches_def Registration_fields_def field_includes_present js_or_Inr
      occurs_in_Cons [of q _ "_ # _"] disj_assoc)

lemma resultMatches_present:
  "None \<notin> set (Result_fields r) \<Longrightarrow> resultMatches q r = Inr (occurs_in q (Result_fields r))"
  by (cases "Result_studentNumber r"; cases "courseCode r"; cases "courseName r"; cases "grade r")
    (simp_all add: resultMatches_def Result_fields_def field_includes_present js_or_Inr
      occurs_in_Cons [of q _ "_ # _"] disj_assoc)

lemma js_filter_total:
  "(\<And>x. x \<in> set xs \<Longrightarrow> p x = Inr (P x)) \<Longrightarrow> js_filter p xs = Inr (filter P xs)"
  by (induction xs) simp_all



lemma ci_occurs_empty: "ci_occurs [] s"
  unfolding ci_occurs_def toLowerCase_def by (rule exI [of _ "[]"]) simp

lemma occurs_in_empty: "occurs_in [] fs \<longleftrightarrow> (\<exists>s. Some s \<in> set fs)"
  by (simp add: occurs_in_def ci_occurs_empty)

lemma substring_filter_filter:
  "substring_filter indexed xs q (filter (\<lambda>x. occurs_in q (indexed x)) xs)"
  unfolding substring_filter_def
proof (intro conjI allI impI)
  fix pre r post
  assume "xs = pre @ r # post \<and> occurs_in q (indexed r) \<and>
          (\<forall>x\<in>set (pre @ post). \<not> occurs_in q (indexed x))"
  then show "filter (\<lambda>x. occurs_in q (indexed x)) xs = [r]"
    by (simp add: filter_empty_conv)
next
  assume "\<forall>x\<in>set xs. \<not> occurs_in q (indexed x)"
  then show "filter (\<lambda>x. occurs_in q (indexed x)) xs = []"
    by (simp add: filter_empty_conv)
next
  assume "q = [] \<and> (\<forall>x\<in>set xs. \<exists>s. Some s \<in> set (indexed x))"
  then show "filter (\<lambda>x. occurs_in q (indexed x)) xs = xs"
    by (simp add: occurs_in_empty filter_id_conv)
qed

lemma filter_effect_total:
  assumes "\<And>x. x \<in> set (items st) \<Longrightarrow> matches (searchTerm st) x = Inr (occurs_in (searchTerm st) (indexed x))"
  shows "filter_effect matches st =
           (st\<lparr>filtered := filter (\<lambda>x. occurs_in (searchTerm st) (indexed x)) (items st)\<rparr>, None)"
  by (simp add: filter_effect_def js_filter_total [where P = "\<lambda>x. occurs_in (searchTerm st) (indexed x)", OF assms])


lemma filter_effect_eq:
  assumes "\<And>x. x \<in> set (items st) \<Longrightarrow> matches (searchTerm st) x = Inr (occurs_in (searchTerm st) (indexed x))"
  shows "snd (filter_effect matches st) = None"
    and "filtered (fst (filter_effect matches st)) = filter (\<lambda>x. occurs_in (searchTerm st) (indexed x)) (items st)"
  by (simp_all add: filter_effect_total [of st matches indexed, OF assms])

text \<open>
  C3 (as amended). In every list view the filtered list consists of the records in
  whose present indexed fields the term occurs, case-insensitively, as a substring: if
  it occurs in exactly one record the result is exactly that record, if it occurs in
  none the result is empty, and the empty term yields every record that has at least
  one indexed field (the full collection when every record has one). The Students view
  does so for every collection; the Courses, Registrations and Results views do so for
  collections whose records carry all their indexed fields.
\<close>

theorem list_filter_substring:
  "snd (Students_filter_effect sv) = None \<and>
   filtered (fst (Students_filter_effect sv))
     = filter (\<lambda>x. occurs_in (searchTerm sv) (Student_fields x)) (items sv) \<and>
   substring_filter Student_fields (items sv) (searchTerm sv)
     (filtered (fst (Students_filter_effect sv))) \<and>
   (searchTerm sv = [] \<longrightarrow>
      filtered (fst (Students_filter_effect sv))
        = filter (\<lambda>x. \<exists>s. Some s \<in> set (Student_fields x)) (items sv)) \<and>
   ((\<forall>c \<in> set (items cv). None \<notin> set (Course_fields c)) \<longrightarrow>
      snd (Courses_filter_effect cv) = None \<and>
      filtered (fst (Courses_filter_effect cv))
        = filter (\<lambda>x. occurs_in (searchTerm cv) (Course_fields x)) (items cv) \<and>
      substring_filter Course_fields (items cv) (searchTerm cv)
        (filtered (fst (Courses_filter_effect cv)))) \<and>
   ((\<forall>r \<in> set (items gv). None \<notin> set (Registration_fields r)) \<longrightarrow>
      snd (Registrations_filter_effect gv) = None \<and>
      filtered (fst (Registrations_filter_effect gv))
        = filter (\<lambda>x. occurs_in (searchTerm gv) (Registration_fields x)) (items gv) \<and>
      substring_filter Registration_fields (items gv) (searchTerm gv)
        (filtered (fst (Registrations_filter_effect gv)))) \<and>
   ((\<forall>r \<in> set (items rv). None \<notin> set (Result_fields r)) \<longrightarrow>
      snd (Results_filter_effect rv) = None \<and>
      filtered (fst (Results_filter_effect rv))
        = filter (\<lambda>x. occurs_in (searchTerm rv) (Result_fields x)) (items rv) \<and>
      substring_filter Result_fields (items rv) (searchTerm rv)
        (filtered (fst (Results_filter_effect rv))))"
proof (intro conjI impI)
  note s = filter_effect_eq [of sv studentMatches Student_fields, OF studentMatches_eq,
      folded Students_filter_effect_def]
  show "snd (Students_filter_effect sv) = None" by (rule s(1))
  show "filtered (fst (Students_filter_effect sv))
     = filter (\<lambda>x. occurs_in (searchTerm sv) (Student_fields x)) (items sv)" by (rule s(2))
  show "substring_filter Student_fields (items sv) (searchTerm sv)
     (filtered (fst (Students_filter_effect sv)))"
    by (simp only: s(2) substring_filter_filter)
  show "filtered (fst (Students_filter_effect sv))
        = filter (\<lambda>x. \<exists>s. Some s \<in> set (Student_fields x)) (items sv)"
    if "searchTerm sv = []"
    using that by (simp add: s(2) occurs_in_empty)
next
  assume a: "\<forall>c \<in> set (items cv). None \<notin> set (Course_fields c)"
  note s = filter_effect_eq [of cv courseMatches Course_fields,
      OF courseMatches_present [OF a [rule_format]], folded Courses_filter_effect_def]
  show "snd (Courses_filter_effect cv) = None" by (rule s(1))
  show "filtered (fst (Courses_filter_effect cv))
        = filter (\<lambda>x. occurs_in (searchTerm cv) (Course_fields x)) (items cv)" by (rule s(2))
  show "substring_filter Course_fields (items cv) (searchTerm cv)
        (filtered (fst (Courses_filter_effect cv)))"
    by (simp only: s(2) substring_filter_filter)
next
  assume a: "\<forall>r \<in> set (items gv). None \<notin> set (Registration_fields r)"
  note s = filter_effect_eq [of gv registrationMatches Registration_fields,
      OF registrationMatches_present [OF a [rule_format]], folded Registrations_filter_effect_def]
  show "snd (Registrations_filter_effect gv) = None" by (rule s(1))
  show "filtered (fst (Registrations_filter_effect gv))
        = filter (\<lambda>x. occurs_in (searchTerm gv) (Registration_fields x)) (items gv)" by (rule s(2))
  show "substring_filter Registration_fields (items gv) (searchTerm gv)
        (filtered (fst (Registrations_filter_effect gv)))"
    by (simp only: s(2) substring_filter_filter)
next
  assume a: "\<forall>r \<in> set (items rv). None \<notin> set (Result_fields r)"
  note s = filter_effect_eq [of rv resultMatches Result_fields,
      OF resultMatches_present [OF a [rule_format]], folded Results_filter_effect_def]
  show "snd (Results_filter_effect rv) = None" by (rule s(1))
  show "filtered (fst (Results_filter_effect rv))
        = filter (\<lambda>x. occurs_in (searchTerm rv) (Result_fields x)) (items rv)" by (rule s(2))
  show "substring_filter Result_fields (items rv) (searchTerm rv)
        (filtered (fst (Results_filter_effect rv)))"
    by (simp only: s(2) substring_filter_filter)
qed

lemma occurs_in_code:
  "occurs_in q fs =
     list_ex (\<lambda>f. case f of None \<Rightarrow> False
                    | Some s \<Rightarrow> str_includes (toLowerCase s) (toLowerCase q)) fs"
  by (auto simp: occurs_in_def ci_occurs_def str_includes_iff list_ex_iff split: option.splits)

lemmas filter_eval =
  occurs_in_code Student_fields_def Course_fields_def Registration_fields_def Result_fields_def
  toLowerCase_def toLowerCase_char_def upper_chars_def lower_chars_def

theorem list_filter_substring_witness:
  "filtered (fst (Students_filter_effect (loaded [alice, bob, nameless] ''ALI''))) = [alice] \<and>
   filtered (fst (Students_filter_effect (loaded [alice, nameless] ''''))) = [alice] \<and>
   filtered (fst (Courses_filter_effect (loaded [cs101, ma201] ''physics''))) = [] \<and>
   filtered (fst (Registrations_filter_effect (loaded [alice_in_cs101, bob_in_ma201] '''')))
     = [alice_in_cs101, bob_in_ma201] \<and>
   filtered (fst (Results_filter_effect (loaded [alice_cs101_A, bob_ma201_B] ''b+'')))
     = [bob_ma201_B]"
proof -
  let ?sv = "loaded [alice, bob, nameless] ''ALI''"
  let ?se = "loaded [alice, nameless] ''''"
  let ?cv = "loaded [cs101, ma201] ''physics''"
  let ?gv = "loaded [alice_in_cs101, bob_in_ma201] ''''"
  let ?rv = "loaded [alice_cs101_A, bob_ma201_B] ''b+''"
  have one_s: "items ?sv = [] @ alice # [bob, nameless] \<and>
        occurs_in (searchTerm ?sv) (Student_fields alice) \<and>
        (\<forall>x \<in> set ([] @ [bob, nameless]). \<not> occurs_in (searchTerm ?sv) (Student_fields x))"
    by (simp add: filter_eval loaded_def alice_def bob_def nameless_def)
  have empty_s: "searchTerm ?se = []" by (simp add: loaded_def)
  have present_c: "\<forall>c \<in> set (items ?cv). None \<notin> set (Course_fields c)"
    by (simp add: Course_fields_def loaded_def cs101_def ma201_def)
  have none_c: "\<forall>x \<in> set (items ?cv). \<not> occurs_in (searchTerm ?cv) (Course_fields x)"
    by (simp add: filter_eval loaded_def cs101_def ma201_def)
  have present_g: "\<forall>r \<in> set (items ?gv). None \<notin> set (Registration_fields r)"
    by (simp add: Registration_fields_def loaded_def alice_in_cs101_def bob_in_ma201_def alice_def bob_def
        cs101_def ma201_def)
  have all_g: "searchTerm ?gv = [] \<and> (\<forall>x \<in> set (items ?gv). \<exists>s. Some s \<in> set (Registration_fields x))"
    by (simp add: Registration_fields_def loaded_def alice_in_cs101_def bob_in_ma201_def alice_def bob_def
        cs101_def ma201_def ex_disj_distrib)
  have present_r: "\<forall>r \<in> set (items ?rv). None \<notin> set (Result_fields r)"
    by (simp add: Result_fields_def loaded_def alice_cs101_A_def bob_ma201_B_def)
  have one_r: "items ?rv = [alice_cs101_A] @ bob_ma201_B # [] \<and>
        occurs_in (searchTerm ?rv) (Result_fields bob_ma201_B) \<and>
        (\<forall>x \<in> set ([alice_cs101_A] @ []). \<not> occurs_in (searchTerm ?rv) (Result_fields x))"
    by (simp add: filter_eval loaded_def alice_cs101_A_def bob_ma201_B_def)
  note a = list_filter_substring [of ?sv, THEN conjunct2, THEN conjunct2, THEN conjunct1,
      unfolded substring_filter_def, THEN conjunct1, rule_format, OF one_s]
  have "filter (\<lambda>x. \<exists>s. Some s \<in> set (Student_fields x)) (items ?se) = [alice]"
    by (simp add: Student_fields_def loaded_def alice_def nameless_def ex_disj_distrib)
  with list_filter_substring [of ?se, THEN conjunct2, THEN conjunct2, THEN conjunct2,
      THEN conjunct1, THEN mp, OF empty_s]
  have b: "filtered (fst (Students_filter_effect ?se)) = [alice]"
    by (rule trans)
  note c = list_filter_substring [of _ ?cv, THEN conjunct2, THEN conjunct2, THEN conjunct2,
      THEN conjunct2, THEN conjunct1, THEN mp, OF present_c, THEN conjunct2, THEN conjunct2,
      unfolded substring_filter_def, THEN conjunct2, THEN conjunct1, THEN mp, OF none_c]
  from list_filter_substring [of _ _ ?gv, THEN conjunct2, THEN conjunct2, THEN conjunct2,
      THEN conjunct2, THEN conjunct2, THEN conjunct1, THEN mp, OF present_g, THEN conjunct2,
      THEN conjunct2, unfolded substring_filter_def, THEN conjunct2, THEN conjunct2, THEN mp,
      OF all_g]
  have d: "filtered (fst (Registrations_filter_effect ?gv)) = [alice_in_cs101, bob_in_ma201]"
    by (simp add: loaded_def)
  note e = list_filter_substring [of _ _ _ ?rv, THEN conjunct2, THEN conjunct2, THEN conjunct2,
      THEN conjunct2, THEN conjunct2, THEN conjunct2, THEN mp, OF present_r, THEN conjunct2,
      THEN conjunct2, unfolded substring_filter_def, THEN conjunct1, rule_format, OF one_r]
  from a b c d e show ?thesis by (intro conjI)
qed

text \<open>
  The claim as stated fails in the Students view: a record without name, email and
  student number is dropped by the empty search term.
\<close>

theorem empty_term_drops_student_without_fields:
  "filtered (fst (Students_filter_effect
     \<lparr>toasts = [], items = [\<lparr>Student_id = 7, studentNumber = None, name = None, email = None,
                 password = None, role = ''student''\<rparr>],
      filtered = [], searchTerm = [], isLoading = False\<rparr>)) = [] \<and>
   snd (Students_filter_effect
     \<lparr>toasts = [], items = [\<lparr>Student_id = 7, studentNumber = None, name = None, email = None,
                 password = None, role = ''student''\<rparr>],
      filtered = [], searchTerm = [], isLoading = False\<rparr>) = None"
  by (simp add: Students_filter_effect_def filter_effect_def studentMatches_def
      field_includes_opt_def js_or_def)




text \<open>
  C10. The predicate of the Students view never throws: on every record, whichever of
  name, email and student number are absent, it returns a truth value, and that value
  is true exactly when the term occurs in a field that is present; a record without
  all three matches nothing. The other three predicates read their fields
  unconditionally: each throws a \<^verbatim>\<open>TypeError\<close> on a record whose first indexed field
  is absent.
\<close>

theorem students_predicate_total:
  "(\<exists>b. studentMatches q s = Inr b) \<and>
   studentMatches q s =
     Inr (\<exists>t. (name s = Some t \<or> email s = Some t \<or> studentNumber s = Some t) \<and>
              str_includes (toLowerCase t) (toLowerCase q)) \<and>
   (name s = None \<and> email s = None \<and> studentNumber s = None \<longrightarrow> studentMatches q s = Inr False) \<and>
   (title c = None \<longrightarrow> courseMatches q c = Inl TypeError) \<and>
   (name (student g) = None \<longrightarrow> registrationMatches q g = Inl TypeError) \<and>
   (Result_studentNumber r = None \<longrightarrow> resultMatches q r = Inl TypeError) \<and>
   (\<exists>c'. None \<in> set (Course_fields c') \<and> courseMatches q c' = Inl TypeError) \<and>
   (\<exists>g'. None \<in> set (Registration_fields g') \<and> registrationMatches q g' = Inl TypeError) \<and>
   (\<exists>r'. None \<in> set (Result_fields r') \<and> resultMatches q r' = Inl TypeError)"
proof (intro conjI impI)
  have e: "studentMatches q s =
     Inr (\<exists>t. (name s = Some t \<or> email s = Some t \<or> studentNumber s = Some t) \<and>
              str_includes (toLowerCase t) (toLowerCase q))"
    by (cases "name s"; cases "email s"; cases "studentNumber s")
      (auto simp: studentMatches_def field_includes_opt_def field_includes_def
        call_toLowerCase_def js_or_def)
  show "studentMatches q s =
     Inr (\<exists>t. (name s = Some t \<or> email s = Some t \<or> studentNumber s = Some t) \<and>
              str_includes (toLowerCase t) (toLowerCase q))" by (rule e)
  show "\<exists>b. studentMatches q s = Inr b" by (simp add: studentMatches_eq)
  show "studentMatches q s = Inr False"
    if "name s = None \<and> email s = None \<and> studentNumber s = None"
    using that by (simp add: e)
  show tc: "courseMatches q c = Inl TypeError" if "title c = None" for c
    using that by (simp add: courseMatches_def field_includes_None js_or_def)
  show tg: "registrationMatches q g = Inl TypeError" if "name (student g) = None" for g
    using that by (simp add: registrationMatches_def field_includes_None js_or_def)
  show tr: "resultMatches q r = Inl TypeError" if "Result_studentNumber r = None" for r
    using that by (simp add: resultMatches_def field_includes_None js_or_def)
  show "\<exists>c'. None \<in> set (Course_fields c') \<and> courseMatches q c' = Inl TypeError"
    by (rule exI [of _ "\<lparr>Course_id = 0, title = None, code = None, credits = 0, instructor = None\<rparr>"])
      (simp add: Course_fields_def tc)
  show "\<exists>g'. None \<in> set (Registration_fields g') \<and> registrationMatches q g' = Inl TypeError"
    by (rule exI [of _ "\<lparr>Registration_id = 0,
          student = \<lparr>Student_id = 0, studentNumber = None, name = None, email = None,
                     password = None, role = []\<rparr>,
          course = \<lparr>Course_id = 0, title = None, code = None, credits = 0, instructor = None\<rparr>,
          registrationDate = []\<rparr>"])
      (simp add: Registration_fields_def tg)
  show "\<exists>r'. None \<in> set (Result_fields r') \<and> resultMatches q r' = Inl TypeError"
    by (rule exI [of _ "\<lparr>Result_id = 0, Result_studentNumber = None, courseCode = None,
          courseName = None, grade = None\<rparr>"])
      (simp add: Result_fields_def tr)
qed

theorem students_predicate_total_witness:
  "studentMatches ''bob'' nameless = Inr False \<and>
   courseMatches ''cs'' untitled = Inl TypeError \<and>
   registrationMatches ''cs'' nameless_in_cs101 = Inl TypeError \<and>
   resultMatches ''cs'' unnumbered_result = Inl TypeError"
proof -
  have hs: "name nameless = None \<and> email nameless = None \<and> studentNumber nameless = None"
    by (simp add: nameless_def)
  have hc: "title untitled = None" by (simp add: untitled_def)
  have hg: "name (student nameless_in_cs101) = None"
    by (simp add: nameless_in_cs101_def nameless_def)
  have hr: "Result_studentNumber unnumbered_result = None" by (simp add: unnumbered_result_def)
  note t = students_predicate_total [THEN conjunct2, THEN conjunct2]
  note a = t [of nameless "''bob''", THEN conjunct1, THEN mp, OF hs]
  note b = t [of _ "''cs''" untitled, THEN conjunct2, THEN conjunct1, THEN mp, OF hc]
  note c = t [of _ "''cs''" _ nameless_in_cs101, THEN conjunct2, THEN conjunct2, THEN conjunct1,
      THEN mp, OF hg]
  note d = t [of _ "''cs''" _ _ unnumbered_result, THEN conjunct2, THEN conjunct2, THEN conjunct2,
      THEN conjunct1, THEN mp, OF hr]
  from a b c d show ?thesis by (intro conjI)
qed

section \<open>Properties of the delete handlers\<close>

lemma count_list_filter:
  "count_list (filter P xs) x = (if P x then count_list xs x else 0)"
  by (induction xs) auto

lemma delete_then_reload_declined:
  "delete_then_reload question del done failed get load st False deleted refetched
     = (st, [Confirm question])"
  by (simp add: delete_then_reload_def)

lemma delete_then_reload_deleted:
  "delete_then_reload question del done failed get load st True (Fulfilled u) refetched
     = (load (notify (success_toast done) st) refetched, [Confirm question, Call del, Call get])"
  by (simp add: delete_then_reload_def)

lemma delete_then_reload_confirm_first:
  "confirm_first (snd (delete_then_reload question del done failed get load st ans deleted refetched))"
  by (cases deleted) (simp_all add: delete_then_reload_def confirm_first_def)

lemma load_collection_items: "items (load_collection failure st (Fulfilled d)) = d"
  by (simp add: load_collection_def)

text \<open>
  C6. Every delete handler asks for confirmation first: the prompt heads the trace and
  only requests follow it. When the user declines, no request is made and the state of
  the view is unchanged. After a confirmed, successful delete the Students view makes
  no further request and keeps its previous list without the records that carry the
  deleted id (no such record remains, every other record keeps its multiplicity, and
  the new list is a subsequence of the old one); the Courses, Registrations and Results
  views instead request the whole collection again and store what that request returns.
\<close>

theorem delete_handlers:
  "confirm_first (snd (handleDeleteStudent sv s ans d)) \<and>
   (\<not> ans \<longrightarrow> fst (handleDeleteStudent sv s ans d) = sv \<and>
             no_request (snd (handleDeleteStudent sv s ans d))) \<and>
   (ans \<and> d = Fulfilled () \<longrightarrow>
      Student_id s \<notin> Student_id ` set (items (fst (handleDeleteStudent sv s ans d))) \<and>
      (\<forall>x. Student_id x \<noteq> Student_id s \<longrightarrow>
           count_list (items (fst (handleDeleteStudent sv s ans d))) x = count_list (items sv) x) \<and>
      subseq (items (fst (handleDeleteStudent sv s ans d))) (items sv) \<and>
      (\<exists>msg. snd (handleDeleteStudent sv s ans d) = [Confirm msg, Call (DeleteStudent (Student_id s))])) \<and>
   confirm_first (snd (handleDeleteCourse cv c ans d cf)) \<and>
   (\<not> ans \<longrightarrow> fst (handleDeleteCourse cv c ans d cf) = cv \<and>
             no_request (snd (handleDeleteCourse cv c ans d cf))) \<and>
   (ans \<and> d = Fulfilled () \<longrightarrow>
      (\<exists>msg. snd (handleDeleteCourse cv c ans d cf)
               = [Confirm msg, Call (DeleteCourse (Course_id c)), Call GetCourses]) \<and>
      (\<forall>fetched. cf = Fulfilled fetched \<longrightarrow>
           items (fst (handleDeleteCourse cv c ans d cf)) = fetched)) \<and>
   confirm_first (snd (handleDeleteRegistration gv g ans d gf)) \<and>
   (\<not> ans \<longrightarrow> fst (handleDeleteRegistration gv g ans d gf) = gv \<and>
             no_request (snd (handleDeleteRegistration gv g ans d gf))) \<and>
   (ans \<and> d = Fulfilled () \<longrightarrow>
      (\<exists>msg. snd (handleDeleteRegistration gv g ans d gf)
               = [Confirm msg, Call (DeleteRegistration (Registration_id g)), Call GetRegistrations]) \<and>
      (\<forall>fetched. gf = Fulfilled fetched \<longrightarrow>
           items (fst (handleDeleteRegistration gv g ans d gf)) = fetched)) \<and>
   confirm_first (snd (handleDeleteResult rv r ans d rf)) \<and>
   (\<not> ans \<longrightarrow> fst (handleDeleteResult rv r ans d rf) = rv \<and>
             no_request (snd (handleDeleteResult rv r ans d rf))) \<and>
   (ans \<and> d = Fulfilled () \<longrightarrow>
      (\<exists>msg. snd (handleDeleteResult rv r ans d rf)
               = [Confirm msg, Call (DeleteResult (Result_id r)), Call GetResults]) \<and>
      (\<forall>fetched. rf = Fulfilled fetched \<longrightarrow>
           items (fst (handleDeleteResult rv r ans d rf)) = fetched))"
proof (intro conjI impI allI)
  show "confirm_first (snd (handleDeleteStudent sv s ans d))"
    by (cases d) (simp_all add: handleDeleteStudent_def confirm_first_def Let_def)
  show "fst (handleDeleteStudent sv s ans d) = sv" if "\<not> ans"
    using that by (simp add: handleDeleteStudent_def Let_def)
  show "no_request (snd (handleDeleteStudent sv s ans d))" if "\<not> ans"
    using that by (simp add: handleDeleteStudent_def Let_def no_request_def)
  show "confirm_first (snd (handleDeleteCourse cv c ans d cf))"
    unfolding handleDeleteCourse_def by (rule delete_then_reload_confirm_first)
  show "confirm_first (snd (handleDeleteRegistration gv g ans d gf))"
    unfolding handleDeleteRegistration_def by (rule delete_then_reload_confirm_first)
  show "confirm_first (snd (handleDeleteResult rv r ans d rf))"
    unfolding handleDeleteResult_def by (rule delete_then_reload_confirm_first)
  show "fst (handleDeleteCourse cv c ans d cf) = cv" if "\<not> ans"
    using that by (simp add: handleDeleteCourse_def delete_then_reload_declined)
  show "no_request (snd (handleDeleteCourse cv c ans d cf))" if "\<not> ans"
    using that by (simp add: handleDeleteCourse_def delete_then_reload_declined no_request_def)
  show "fst (handleDeleteRegistration gv g ans d gf) = gv" if "\<not> ans"
    using that by (simp add: handleDeleteRegistration_def delete_then_reload_declined)
  show "no_request (snd (handleDeleteRegistration gv g ans d gf))" if "\<not> ans"
    using that by (simp add: handleDeleteRegistration_def delete_then_reload_declined no_request_def)
  show "fst (handleDeleteResult rv r ans d rf) = rv" if "\<not> ans"
    using that by (simp add: handleDeleteResult_def delete_then_reload_declined)
  show "no_request (snd (handleDeleteResult rv r ans d rf))" if "\<not> ans"
    using that by (simp add: handleDeleteResult_def delete_then_reload_declined no_request_def)
next
  assume a: "ans \<and> d = Fulfilled ()"
  then have i: "items (fst (handleDeleteStudent sv s ans d))
                  = filter (\<lambda>x. Student_id x \<noteq> Student_id s) (items sv)"
    by (simp add: handleDeleteStudent_def Let_def notify_def)
  show "Student_id s \<notin> Student_id ` set (items (fst (handleDeleteStudent sv s ans d)))"
    by (auto simp: i)
  show "subseq (items (fst (handleDeleteStudent sv s ans d))) (items sv)"
    by (simp add: i)
  show "\<exists>msg. snd (handleDeleteStudent sv s ans d) = [Confirm msg, Call (DeleteStudent (Student_id s))]"
    using a by (simp add: handleDeleteStudent_def Let_def)
  show "count_list (items (fst (handleDeleteStudent sv s ans d))) x = count_list (items sv) x"
    if "Student_id x \<noteq> Student_id s" for x
    using that by (simp add: i count_list_filter)
next
  assume a: "ans \<and> d = Fulfilled ()"
  then show "\<exists>msg. snd (handleDeleteCourse cv c ans d cf)
               = [Confirm msg, Call (DeleteCourse (Course_id c)), Call GetCourses]"
    by (simp add: handleDeleteCourse_def delete_then_reload_deleted)
  show "items (fst (handleDeleteCourse cv c ans d cf)) = fetched" if "cf = Fulfilled fetched" for fetched
    using a that
    by (simp add: handleDeleteCourse_def delete_then_reload_deleted loadCourses_def load_collection_items)
next
  assume a: "ans \<and> d = Fulfilled ()"
  then show "\<exists>msg. snd (handleDeleteRegistration gv g ans d gf)
               = [Confirm msg, Call (DeleteRegistration (Registration_id g)), Call GetRegistrations]"
    by (simp add: handleDeleteRegistration_def delete_then_reload_deleted)
  show "items (fst (handleDeleteRegistration gv g ans d gf)) = fetched" if "gf = Fulfilled fetched" for fetched
    using a that
    by (simp add: handleDeleteRegistration_def delete_then_reload_deleted loadRegistrations_def
        load_collection_items)
next
  assume a: "ans \<and> d = Fulfilled ()"
  then show "\<exists>msg. snd (handleDeleteResult rv r ans d rf)
               = [Confirm msg, Call (DeleteResult (Result_id r)), Call GetResults]"
    by (simp add: handleDeleteResult_def delete_then_reload_deleted)
  show "items (fst (handleDeleteResult rv r ans d rf)) = fetched" if "rf = Fulfilled fetched" for fetched
    using a that
    by (simp add: handleDeleteResult_def delete_then_reload_deleted loadResults_def load_collection_items)
qed

theorem delete_handlers_witness:
  "Student_id bob \<notin> Student_id ` set (items (fst
      (handleDeleteStudent (loaded [alice, bob] '''') bob True (Fulfilled ())))) \<and>
   count_list (items (fst (handleDeleteStudent (loaded [alice, bob] '''') bob True (Fulfilled ()))))
     alice = 1 \<and>
   fst (handleDeleteStudent (loaded [alice, bob] '''') bob False (Fulfilled ()))
     = loaded [alice, bob] '''' \<and>
   fst (handleDeleteCourse (loaded [cs101, ma201] '''') cs101 False (Fulfilled ())
          (Fulfilled [ma201])) = loaded [cs101, ma201] '''' \<and>
   items (fst (handleDeleteCourse (loaded [cs101, ma201] '''') cs101 True (Fulfilled ())
          (Fulfilled [ma201]))) = [ma201] \<and>
   fst (handleDeleteRegistration (loaded [alice_in_cs101, bob_in_ma201] '''') alice_in_cs101 False
          (Fulfilled ()) (Fulfilled [bob_in_ma201])) = loaded [alice_in_cs101, bob_in_ma201] '''' \<and>
   items (fst (handleDeleteRegistration (loaded [alice_in_cs101, bob_in_ma201] '''') alice_in_cs101
          True (Fulfilled ()) (Fulfilled [bob_in_ma201]))) = [bob_in_ma201] \<and>
   fst (handleDeleteResult (loaded [alice_cs101_A, bob_ma201_B] '''') alice_cs101_A False
          (Fulfilled ()) (Fulfilled [bob_ma201_B])) = loaded [alice_cs101_A, bob_ma201_B] '''' \<and>
   items (fst (handleDeleteResult (loaded [alice_cs101_A, bob_ma201_B] '''') alice_cs101_A True
          (Fulfilled ()) (Fulfilled [bob_ma201_B]))) = [bob_ma201_B]"
proof -
  let ?sv = "loaded [alice, bob] ''''"
  let ?cv = "loaded [cs101, ma201] ''''"
  let ?gv = "loaded [alice_in_cs101, bob_in_ma201] ''''"
  let ?rv = "loaded [alice_cs101_A, bob_ma201_B] ''''"
  have yes: "True \<and> Fulfilled () = (Fulfilled () :: unit settled)" by simp
  have no: "\<not> False" by simp
  have other: "Student_id alice \<noteq> Student_id bob" by (simp add: alice_def bob_def)
  note T = delete_handlers [of ?sv bob True "Fulfilled ()" ?cv cs101 "Fulfilled [ma201]"
      ?gv alice_in_cs101 "Fulfilled [bob_in_ma201]" ?rv alice_cs101_A "Fulfilled [bob_ma201_B]"]
  note F = delete_handlers [of ?sv bob False "Fulfilled ()" ?cv cs101 "Fulfilled [ma201]"
      ?gv alice_in_cs101 "Fulfilled [bob_in_ma201]" ?rv alice_cs101_A "Fulfilled [bob_ma201_B]"]
  note T3 = T [THEN conjunct2, THEN conjunct2]
  note T6 = T3 [THEN conjunct2, THEN conjunct2, THEN conjunct2]
  note T9 = T6 [THEN conjunct2, THEN conjunct2, THEN conjunct2]
  note T12 = T9 [THEN conjunct2, THEN conjunct2, THEN conjunct2]
  note F2 = F [THEN conjunct2]
  note F5 = F2 [THEN conjunct2, THEN conjunct2, THEN conjunct2]
  note F8 = F5 [THEN conjunct2, THEN conjunct2, THEN conjunct2]
  note F11 = F8 [THEN conjunct2, THEN conjunct2, THEN conjunct2]
  note s = T3 [THEN conjunct1, THEN mp, OF yes]
  have "count_list (items (fst (handleDeleteStudent ?sv bob True (Fulfilled ())))) alice
          = count_list (items ?sv) alice"
    by (rule s [THEN conjunct2, THEN conjunct1, THEN spec, THEN mp, OF other])
  also have "\<dots> = 1" by (simp add: loaded_def alice_def bob_def)
  finally have 2: "count_list (items (fst (handleDeleteStudent ?sv bob True (Fulfilled ())))) alice = 1" .
  note 1 = s [THEN conjunct1]
  note 3 = F2 [THEN conjunct1, THEN mp, OF no, THEN conjunct1]
  note 4 = F5 [THEN conjunct1, THEN mp, OF no, THEN conjunct1]
  note 5 = T6 [THEN conjunct1, THEN mp, OF yes, THEN conjunct2, THEN spec, THEN mp, OF refl]
  note 6 = F8 [THEN conjunct1, THEN mp, OF no, THEN conjunct1]
  note 7 = T9 [THEN conjunct1, THEN mp, OF yes, THEN conjunct2, THEN spec, THEN mp, OF refl]
  note 8 = F11 [THEN conjunct1, THEN mp, OF no, THEN conjunct1]
  note 9 = T12 [THEN mp, OF yes, THEN conjunct2, THEN spec, THEN mp, OF refl]
  from 1 2 3 4 5 6 7 8 9 show ?thesis by (intro conjI)
qed

section \<open>Properties of the course form\<close>













section \<open>Properties of the result and registration forms\<close>

lemma loadData_cases:
  "loadData st (s, c) =
     (case promise_all s c of
        Fulfilled p \<Rightarrow> st\<lparr>students := fst p, courses := snd p, isLoadingData := False\<rparr>
      | Rejected e \<Rightarrow> st\<lparr>toasts := toasts st @ [load_failure], isLoadingData := False\<rparr>)"
  by (simp add: loadData_def loadData_settle_def loadData_begin_def notify_def load_failure_def
      split: settled.splits prod.splits)

lemma loadData_errors [simp]: "errors (loadData st f) = errors st"
  by (cases f) (simp add: loadData_cases split: settled.splits)

lemma loadData_form_values [simp]: "form_values (loadData st f) = form_values st"
  by (cases f) (simp add: loadData_cases split: settled.splits)

lemma loadData_isOpen [simp]: "isOpen (loadData st f) = isOpen st"
  by (cases f) (simp add: loadData_cases split: settled.splits)

lemma loadData_toasts:
  "toasts (loadData st f) = toasts st \<or> toasts (loadData st f) = toasts st @ [load_failure]"
  by (cases f) (simp add: loadData_cases split: settled.splits)

lemma loadData_toasts_subset: "set (toasts (loadData st f)) \<subseteq> set (toasts st) \<union> {load_failure}"
  using loadData_toasts [of st f] by auto

lemma setValue_studentId_simps [simp]:
  "errors (setValue_studentId v st) = errors st"
  "toasts (setValue_studentId v st) = toasts st"
  "courseId (form_values (setValue_studentId v st)) = courseId (form_values st)"
  "studentId (form_values (setValue_studentId v st)) = v"
  by (simp_all add: setValue_studentId_def)

lemma setValue_courseId_simps [simp]:
  "errors (setValue_courseId v st) = errors st"
  "toasts (setValue_courseId v st) = toasts st"
  "studentId (form_values (setValue_courseId v st)) = studentId (form_values st)"
  "courseId (form_values (setValue_courseId v st)) = v"
  by (simp_all add: setValue_courseId_def)

lemma ResultForm_open_effect_errors:
  "errors (ResultForm_open_effect result st f1 f2) = errors st"
  by (simp add: ResultForm_open_effect_def Let_def split: option.splits)

lemma ResultForm_open_effect_toasts:
  "set (toasts (ResultForm_open_effect result st f1 f2)) \<subseteq> set (toasts st) \<union> {load_failure}"
proof -
  have "set (toasts (loadData (loadData st f1) f2)) \<subseteq> set (toasts st) \<union> {load_failure}"
    using loadData_toasts_subset [of "loadData st f1" f2] loadData_toasts_subset [of st f1] by auto
  with loadData_toasts_subset [of st f1] show ?thesis
    by (auto simp: ResultForm_open_effect_def Let_def split: option.splits)
qed

lemma ResultForm_open_effect_loaded:
  assumes "isOpen st"
  shows "students (ResultForm_open_effect (Some r) st (Fulfilled ss1, Fulfilled cs1)
                     (Fulfilled ss2, Fulfilled cs2)) = ss2"
    and "toasts (ResultForm_open_effect (Some r) st (Fulfilled ss1, Fulfilled cs1)
                   (Fulfilled ss2, Fulfilled cs2)) = toasts st"
  using assms
  by (simp_all add: ResultForm_open_effect_def Let_def loadData_cases promise_all_def
      setValue_studentId_def setValue_courseId_def split: option.splits)

lemma ResultForm_submit_unselected:
  assumes "studentId (form_values st) = []"
  shows "ResultForm_submit editing st outcome =
           (st\<lparr>errors := first_per_field (resultSchema (form_values st))\<rparr>, [])"
    and "(''studentId'', ''Please select a student'') \<in> set (first_per_field (resultSchema (form_values st)))"
  using assms by (simp_all add: ResultForm_submit_def resultSchema_def)

text \<open>
  C4 (as amended). When the result form is opened to edit an existing result whose
  student number matches no student in the freshly loaded student list, the form
  surfaces no error: the list it then holds has no student with that number, and yet
  no notification is raised and no field error is set. In general the open effect
  leaves the field errors as they were and can add no notification but the generic
  load failure. The form does not submit with an empty studentId: validation blocks
  the submit, the field gets the message \<^verbatim>\<open>Please select a student\<close>, the submit
  callback is not called, the form stays as open as it was and no notification is
  added.
\<close>

theorem result_edit_unresolved_student:
  "errors (ResultForm_open_effect (Some r) st f1 f2) = errors st \<and>
   set (toasts (ResultForm_open_effect (Some r) st f1 f2)) \<subseteq> set (toasts st) \<union> {load_failure} \<and>
   (isOpen st \<and> f1 = (Fulfilled ss1, Fulfilled cs1) \<and> f2 = (Fulfilled ss2, Fulfilled cs2) \<and>
    Result_studentNumber r \<notin> set (map studentNumber ss1) \<and>
    Result_studentNumber r \<notin> set (map studentNumber ss2) \<longrightarrow>
      Result_studentNumber r
        \<notin> set (map studentNumber (students (ResultForm_open_effect (Some r) st f1 f2))) \<and>
      toasts (ResultForm_open_effect (Some r) st f1 f2) = toasts st \<and>
      errors (ResultForm_open_effect (Some r) st f1 f2) = errors st) \<and>
   (studentId (form_values st) = [] \<longrightarrow>
      snd (ResultForm_submit editing st outcome) = [] \<and>
      (''studentId'', ''Please select a student'')
        \<in> set (errors (fst (ResultForm_submit editing st outcome))) \<and>
      toasts (fst (ResultForm_submit editing st outcome)) = toasts st \<and>
      isOpen (fst (ResultForm_submit editing st outcome)) = isOpen st)"
proof (intro conjI impI)
  show "errors (ResultForm_open_effect (Some r) st f1 f2) = errors st"
    by (rule ResultForm_open_effect_errors)
  show "set (toasts (ResultForm_open_effect (Some r) st f1 f2)) \<subseteq> set (toasts st) \<union> {load_failure}"
    by (rule ResultForm_open_effect_toasts)
next
  assume a: "isOpen st \<and> f1 = (Fulfilled ss1, Fulfilled cs1) \<and> f2 = (Fulfilled ss2, Fulfilled cs2) \<and>
    Result_studentNumber r \<notin> set (map studentNumber ss1) \<and>
    Result_studentNumber r \<notin> set (map studentNumber ss2)"
  then have o: "isOpen st" and f: "f1 = (Fulfilled ss1, Fulfilled cs1)" "f2 = (Fulfilled ss2, Fulfilled cs2)"
    and n: "Result_studentNumber r \<notin> set (map studentNumber ss2)"
    by simp_all
  note l = ResultForm_open_effect_loaded [OF o, of r ss1 cs1 ss2 cs2, folded f]
  show "Result_studentNumber r
        \<notin> set (map studentNumber (students (ResultForm_open_effect (Some r) st f1 f2)))"
    unfolding l(1) by (rule n)
  show "toasts (ResultForm_open_effect (Some r) st f1 f2) = toasts st"
    by (rule l(2))
  show "errors (ResultForm_open_effect (Some r) st f1 f2) = errors st"
    by (rule ResultForm_open_effect_errors)
next
  assume a: "studentId (form_values st) = []"
  note s = ResultForm_submit_unselected(1) [OF a, of editing outcome]
  note m = ResultForm_submit_unselected(2) [OF a]
  show "snd (ResultForm_submit editing st outcome) = []" by (simp add: s)
  show "(''studentId'', ''Please select a student'')
        \<in> set (errors (fst (ResultForm_submit editing st outcome)))"
    using m by (simp add: s)
  show "toasts (fst (ResultForm_submit editing st outcome)) = toasts st" by (simp add: s)
  show "isOpen (fst (ResultForm_submit editing st outcome)) = isOpen st" by (simp add: s)
qed

theorem result_edit_unresolved_student_witness:
  "toasts (ResultForm_open_effect (Some alice_cs101_A)
      (opened_select blank_result blank_result [alice] [cs101])
      (Fulfilled [bob], Fulfilled [ma201]) (Fulfilled [bob], Fulfilled [ma201])) = [] \<and>
   errors (ResultForm_open_effect (Some alice_cs101_A)
      (opened_select blank_result blank_result [alice] [cs101])
      (Fulfilled [bob], Fulfilled [ma201]) (Fulfilled [bob], Fulfilled [ma201])) = [] \<and>
   Some ''S001'' \<notin> set (map studentNumber (students (ResultForm_open_effect (Some alice_cs101_A)
      (opened_select blank_result blank_result [alice] [cs101])
      (Fulfilled [bob], Fulfilled [ma201]) (Fulfilled [bob], Fulfilled [ma201])))) \<and>
   snd (ResultForm_submit True
      (opened_select \<lparr>studentId = '''', courseId = ''10'', form_grade = ''A''\<rparr> blank_result
         [bob] [cs101])
      (Fulfilled ())) = [] \<and>
   (''studentId'', ''Please select a student'') \<in> set (errors (fst (ResultForm_submit True
      (opened_select \<lparr>studentId = '''', courseId = ''10'', form_grade = ''A''\<rparr> blank_result
         [bob] [cs101])
      (Fulfilled ()))))"
proof -
  let ?st = "opened_select blank_result blank_result [alice] [cs101]"
  let ?f = "(Fulfilled [bob], Fulfilled [ma201])"
  let ?su = "opened_select \<lparr>studentId = '''', courseId = ''10'', form_grade = ''A''\<rparr> blank_result
         [bob] [cs101]"
  have scenario: "isOpen ?st \<and> ?f = (Fulfilled [bob], Fulfilled [ma201]) \<and>
      ?f = (Fulfilled [bob], Fulfilled [ma201]) \<and>
      Result_studentNumber alice_cs101_A \<notin> set (map studentNumber [bob]) \<and>
      Result_studentNumber alice_cs101_A \<notin> set (map studentNumber [bob])"
    by (simp add: opened_select_def alice_cs101_A_def bob_def)
  have unset: "studentId (form_values ?su) = []" by (simp add: opened_select_def)
  note a = result_edit_unresolved_student [of alice_cs101_A ?st ?f ?f "[bob]" "[ma201]" "[bob]"
      "[ma201]", THEN conjunct2, THEN conjunct2, THEN conjunct1, THEN mp, OF scenario]
  note b = result_edit_unresolved_student [of _ ?su _ _ _ _ _ _ True "Fulfilled ()",
      THEN conjunct2, THEN conjunct2, THEN conjunct2, THEN mp, OF unset]
  from a [THEN conjunct2, THEN conjunct1]
  have 1: "toasts (ResultForm_open_effect (Some alice_cs101_A) ?st ?f ?f) = []"
    by (simp add: opened_select_def)
  from a [THEN conjunct2, THEN conjunct2]
  have 2: "errors (ResultForm_open_effect (Some alice_cs101_A) ?st ?f ?f) = []"
    by (simp add: opened_select_def)
  from a [THEN conjunct1]
  have 3: "Some ''S001'' \<notin> set (map studentNumber
      (students (ResultForm_open_effect (Some alice_cs101_A) ?st ?f ?f)))"
    by (simp add: alice_cs101_A_def)
  from 1 2 3 b [THEN conjunct1] b [THEN conjunct2, THEN conjunct1] show ?thesis by (intro conjI)
qed

text \<open>
  The claim as stated fails: the form is opened to edit the result of student
  \<^verbatim>\<open>S001\<close>, the student list that is loaded holds only \<^verbatim>\<open>S002\<close>, and afterwards the
  form shows no notification and no field error; the studentId select is just unset.
\<close>

theorem unresolved_student_is_silent:
  "Some ''S001'' \<notin> set (map studentNumber
     [\<lparr>Student_id = 2, studentNumber = Some ''S002'', name = Some ''Bob'',
       email = Some ''bob@uni.edu'', password = None, role = ''student''\<rparr>]) \<and>
   toasts (ResultForm_open_effect
      (Some \<lparr>Result_id = 1, Result_studentNumber = Some ''S001'', courseCode = Some ''CS101'',
             courseName = Some ''Intro to CS'', grade = Some ''A''\<rparr>)
      \<lparr>toasts = [], isOpen = True, isSubmitting = False,
       form_values = \<lparr>studentId = '''', courseId = '''', form_grade = ''A''\<rparr>,
       defaultValues = \<lparr>studentId = '''', courseId = '''', form_grade = ''A''\<rparr>,
       errors = [], students = [], courses = [], isLoadingData = False\<rparr>
      (Fulfilled [\<lparr>Student_id = 2, studentNumber = Some ''S002'', name = Some ''Bob'',
                    email = Some ''bob@uni.edu'', password = None, role = ''student''\<rparr>],
       Fulfilled [])
      (Fulfilled [\<lparr>Student_id = 2, studentNumber = Some ''S002'', name = Some ''Bob'',
                    email = Some ''bob@uni.edu'', password = None, role = ''student''\<rparr>],
       Fulfilled [])) = [] \<and>
   errors (ResultForm_open_effect
      (Some \<lparr>Result_id = 1, Result_studentNumber = Some ''S001'', courseCode = Some ''CS101'',
             courseName = Some ''Intro to CS'', grade = Some ''A''\<rparr>)
      \<lparr>toasts = [], isOpen = True, isSubmitting = False,
       form_values = \<lparr>studentId = '''', courseId = '''', form_grade = ''A''\<rparr>,
       defaultValues = \<lparr>studentId = '''', courseId = '''', form_grade = ''A''\<rparr>,
       errors = [], students = [], courses = [], isLoadingData = False\<rparr>
      (Fulfilled [\<lparr>Student_id = 2, studentNumber = Some ''S002'', name = Some ''Bob'',
                    email = Some ''bob@uni.edu'', password = None, role = ''student''\<rparr>],
       Fulfilled [])
      (Fulfilled [\<lparr>Student_id = 2, studentNumber = Some ''S002'', name = Some ''Bob'',
                    email = Some ''bob@uni.edu'', password = None, role = ''student''\<rparr>],
       Fulfilled [])) = [] \<and>
   studentId (form_values (ResultForm_open_effect
      (Some \<lparr>Result_id = 1, Result_studentNumber = Some ''S001'', courseCode = Some ''CS101'',
             courseName = Some ''Intro to CS'', grade = Some ''A''\<rparr>)
      \<lparr>toasts = [], isOpen = True, isSubmitting = False,
       form_values = \<lparr>studentId = '''', courseId = '''', form_grade = ''A''\<rparr>,
       defaultValues = \<lparr>studentId = '''', courseId = '''', form_grade = ''A''\<rparr>,
       errors = [], students = [], courses = [], isLoadingData = False\<rparr>
      (Fulfilled [\<lparr>Student_id = 2, studentNumber = Some ''S002'', name = Some ''Bob'',
                    email = Some ''bob@uni.edu'', password = None, role = ''student''\<rparr>],
       Fulfilled [])
      (Fulfilled [\<lparr>Student_id = 2, studentNumber = Some ''S002'', name = Some ''Bob'',
                    email = Some ''bob@uni.edu'', password = None, role = ''student''\<rparr>],
       Fulfilled []))) = ''''"
  by (simp add: ResultForm_open_effect_def loadData_cases promise_all_def Let_def)

text \<open>
  One run of \<^verbatim>\<open>loadData\<close>: both lists are stored when both requests fulfil; when one
  rejects neither list is touched and one notification is added; the select boxes are
  not rendered while the run is pending.
\<close>

lemma loadData_join:
  "(\<forall>ss cs. s = Fulfilled ss \<and> c = Fulfilled cs \<longrightarrow>
      loadData st (s, c) = st\<lparr>students := ss, courses := cs, isLoadingData := False\<rparr>) \<and>
   ((\<exists>e. s = Rejected e) \<or> (\<exists>e. c = Rejected e) \<longrightarrow>
      loadData st (s, c) = st\<lparr>toasts := toasts st @ [load_failure], isLoadingData := False\<rparr>) \<and>
   \<not> renders_selects (loadData_begin st) \<and>
   renders_selects (loadData st (s, c)) = isOpen st"
  by (cases s; cases c)
    (simp_all add: loadData_cases promise_all_def renders_selects_def loadData_begin_def)

text \<open>
  C8. The code evaluated where it departs from the claim: the result form is opened to
  edit a result while the backend is unreachable. \<^verbatim>\<open>loadData\<close> runs twice, each join
  rejects, and two notifications are raised, where the registration form raises one.
\<close>

theorem result_form_edit_notifies_twice:
  "toasts (ResultForm_open_effect
      (Some \<lparr>Result_id = 1, Result_studentNumber = Some ''S001'', courseCode = Some ''CS101'',
             courseName = Some ''Intro to CS'', grade = Some ''A''\<rparr>)
      \<lparr>toasts = [], isOpen = True, isSubmitting = False,
       form_values = \<lparr>studentId = '''', courseId = '''', form_grade = ''A''\<rparr>,
       defaultValues = \<lparr>studentId = '''', courseId = '''', form_grade = ''A''\<rparr>,
       errors = [], students = [], courses = [], isLoadingData = False\<rparr>
      (Rejected \<lparr>error_response = None\<rparr>, Rejected \<lparr>error_response = None\<rparr>)
      (Rejected \<lparr>error_response = None\<rparr>, Rejected \<lparr>error_response = None\<rparr>))
     = [error_toast ''Failed to load students and courses data'',
        error_toast ''Failed to load students and courses data''] \<and>
   toasts (RegistrationForm_open_effect
      \<lparr>toasts = [], isOpen = True, isSubmitting = False,
       form_values = \<lparr>studentId = '''', courseId = '''', form_registrationDate = InvalidDate\<rparr>,
       defaultValues = \<lparr>studentId = '''', courseId = '''', form_registrationDate = InvalidDate\<rparr>,
       errors = [], students = [], courses = [], isLoadingData = False\<rparr>
      (Rejected \<lparr>error_response = None\<rparr>, Rejected \<lparr>error_response = None\<rparr>))
     = [error_toast ''Failed to load students and courses data'']"
  by (simp add: ResultForm_open_effect_def RegistrationForm_open_effect_def loadData_cases
      promise_all_def Let_def load_failure_def)

section \<open>Properties of the submit handlers\<close>

lemma length_digit_chars: "length digit_chars = 10"
  by (simp add: digit_chars_def)

lemma digit_char_in: "d < 10 \<Longrightarrow> digit_char d \<in> set digit_chars"
  unfolding digit_char_def by (rule nth_mem) (simp add: length_digit_chars)

lemma digit_value_digit_char: "d < 10 \<Longrightarrow> digit_value (digit_char d) = Some d"
proof -
  assume "d < 10"
  then have "d = 0 \<or> d = 1 \<or> d = 2 \<or> d = 3 \<or> d = 4 \<or> d = 5 \<or> d = 6 \<or> d = 7 \<or> d = 8 \<or> d = 9"
    by arith
  then show ?thesis
    by (elim disjE) (simp_all add: digit_value_def digit_char_def digit_chars_def)
qed

lemma digits_nonempty: "digits n \<noteq> []"
  by (subst digits.simps) simp

lemma digits_chars: "c \<in> set (digits n) \<Longrightarrow> c \<in> set digit_chars"
proof (induction n rule: digits.induct)
  case (1 n)
  show ?case
  proof (cases "n < 10")
    case True
    with "1.prems" show ?thesis by (subst (asm) digits.simps) (simp add: digit_char_in)
  next
    case False
    with "1.prems" have "c \<in> set (digits (n div 10)) \<or> c = digit_char (n mod 10)"
      by (subst (asm) digits.simps) auto
    with False "1.IH" show ?thesis by (auto simp: digit_char_in)
  qed
qed

lemma digits_value_snoc:
  "digits_value r (ds @ [c]) = digits_value r ds * r + the (digit_value c)"
  by (simp add: digits_value_def)

lemma digits_value_digits: "digits_value 10 (digits n) = n"
proof (induction n rule: digits.induct)
  case (1 n)
  show ?case
  proof (cases "n < 10")
    case True
    then show ?thesis
      by (subst digits.simps) (simp add: digits_value_def digit_value_digit_char)
  next
    case False
    with "1.IH" show ?thesis
      by (subst digits.simps) (simp add: digits_value_snoc digit_value_digit_char)
  qed
qed

lemma length_digits: "n < 10 ^ w \<Longrightarrow> 0 < w \<Longrightarrow> length (digits n) \<le> w"
proof (induction n arbitrary: w rule: digits.induct)
  case (1 n)
  show ?case
  proof (cases "n < 10")
    case True
    with "1.prems" show ?thesis by (subst digits.simps) simp
  next
    case False
    from "1.prems" obtain v where w: "w = Suc v" by (cases w) auto
    with False "1.prems" have v: "0 < v" by (cases v) auto
    from "1.prems" w have "n div 10 < 10 ^ v" by (simp add: less_mult_imp_div_less mult.commute)
    with "1.IH" False v have "length (digits (n div 10)) \<le> v" by simp
    with False w show ?thesis by (subst digits.simps) simp
  qed
qed

lemma length_pad: "n < 10 ^ w \<Longrightarrow> 0 < w \<Longrightarrow> length (pad w n) = w"
  using length_digits [of n w] by (simp add: pad_def)

lemma pad_chars: "c \<in> set (pad w n) \<Longrightarrow> c \<in> set digit_chars"
proof -
  have "CHR ''0'' \<in> set digit_chars" by (simp add: digit_chars_def)
  moreover assume "c \<in> set (pad w n)"
  ultimately show ?thesis by (auto simp: pad_def digits_chars split: if_splits)
qed

lemma digit_chars_plain:
  "c \<in> set digit_chars \<Longrightarrow>
     \<not> is_whitespace c \<and> c \<noteq> CHR ''+'' \<and> c \<noteq> CHR ''-'' \<and> c \<noteq> CHR ''x'' \<and> c \<noteq> CHR ''X'' \<and>
     is_digit_of 10 c"
proof -
  assume "c \<in> set digit_chars"
  then have "c = CHR ''0'' \<or> c = CHR ''1'' \<or> c = CHR ''2'' \<or> c = CHR ''3'' \<or> c = CHR ''4'' \<or>
      c = CHR ''5'' \<or> c = CHR ''6'' \<or> c = CHR ''7'' \<or> c = CHR ''8'' \<or> c = CHR ''9''"
    by (simp add: digit_chars_def)
  then show ?thesis
    by (elim disjE) (simp_all add: is_whitespace_def is_digit_of_def digit_value_def digit_chars_def)
qed

lemma take2_digits: "(\<And>c. c \<in> set ds \<Longrightarrow> c \<in> set digit_chars) \<Longrightarrow> take 2 ds \<noteq> ''0x'' \<and> take 2 ds \<noteq> ''0X''"
proof (cases ds)
  case Nil
  then show ?thesis by simp
next
  case (Cons a as)
  assume d: "\<And>c. c \<in> set ds \<Longrightarrow> c \<in> set digit_chars"
  show ?thesis
  proof (cases as)
    case Nil
    with Cons show ?thesis by simp
  next
    case (Cons b bs)
    with \<open>ds = a # as\<close> d [of b] have "b \<noteq> CHR ''x'' \<and> b \<noteq> CHR ''X''"
      by (simp add: digit_chars_plain)
    with Cons \<open>ds = a # as\<close> show ?thesis by simp
  qed
qed

lemma parseInt_digits: "parseInt (digits n) = Num (of_int (int n))"
proof -
  let ?s = "digits n"
  have all: "\<And>c. c \<in> set ?s \<Longrightarrow> c \<in> set digit_chars" by (rule digits_chars)
  obtain c cs where s: "?s = c # cs" using digits_nonempty [of n] by (cases ?s) auto
  with all [of c] have c: "c \<in> set digit_chars" by simp
  have dw: "dropWhile is_whitespace ?s = ?s"
    using c s by (simp add: digit_chars_plain)
  have hd: "hd ?s \<noteq> CHR ''+''" "hd ?s \<noteq> CHR ''-''"
    using c s by (simp_all add: digit_chars_plain)
  have t2: "take 2 ?s \<noteq> ''0x'' \<and> take 2 ?s \<noteq> ''0X''" by (rule take2_digits) (rule all)
  have tw: "takeWhile (is_digit_of 10) ?s = ?s"
    by (rule takeWhile_eq_all_conv [THEN iffD2]) (simp add: all digit_chars_plain)
  show ?thesis
    unfolding parseInt_def Let_def dw
    using hd t2 by (simp add: tw digits_nonempty digits_value_digits)
qed

lemma parseInt_minus_digits: "parseInt (CHR ''-'' # digits n) = Num (of_int (- int n))"
proof -
  let ?s = "digits n"
  have all: "\<And>c. c \<in> set ?s \<Longrightarrow> c \<in> set digit_chars" by (rule digits_chars)
  have dw: "dropWhile is_whitespace (CHR ''-'' # ?s) = CHR ''-'' # ?s"
    by (simp add: is_whitespace_def)
  have t2: "take 2 ?s \<noteq> ''0x'' \<and> take 2 ?s \<noteq> ''0X''" by (rule take2_digits) (rule all)
  have tw: "takeWhile (is_digit_of 10) ?s = ?s"
    by (rule takeWhile_eq_all_conv [THEN iffD2]) (simp add: all digit_chars_plain)
  show ?thesis
    unfolding parseInt_def Let_def dw
    using t2 by (simp add: tw digits_nonempty digits_value_digits)
qed

lemma parseInt_Number_toString: "parseInt (Number_toString n) = Num (of_int n)"
proof (cases "n < 0")
  case True
  then show ?thesis by (simp add: Number_toString_def parseInt_minus_digits)
next
  case False
  then show ?thesis by (simp add: Number_toString_def parseInt_digits)
qed

lemma toISOString_shape:
  assumes "utc_in_range t"
  shows "\<exists>s. toISOString (ValidDate t) = Inr s \<and> iso_8601 s"
proof -
  from assms have y: "nat (year t) < 10 ^ 4" and r: "0 \<le> year t \<and> year t \<le> 9999"
    and m: "month t < 10 ^ 2" and d: "day t < 10 ^ 2" and h: "hours t < 10 ^ 2"
    and mi: "minutes t < 10 ^ 2" and s: "seconds t < 10 ^ 2" and ms: "milliseconds t < 10 ^ 3"
    unfolding utc_in_range_def by auto
  let ?Y = "pad 4 (nat (year t))" and ?M = "pad 2 (month t)" and ?D = "pad 2 (day t)"
  let ?h = "pad 2 (hours t)" and ?m = "pad 2 (minutes t)" and ?s = "pad 2 (seconds t)"
  let ?ms = "pad 3 (milliseconds t)"
  have eq: "toISOString (ValidDate t) =
      Inr (?Y @ ''-'' @ ?M @ ''-'' @ ?D @ ''T'' @ ?h @ '':'' @ ?m @ '':'' @ ?s @ ''.'' @ ?ms @ ''Z'')"
    using r by (simp add: toISOString_def iso_year_def)
  have len: "length ?Y = 4" "length ?M = 2" "length ?D = 2" "length ?h = 2" "length ?m = 2"
    "length ?s = 2" "length ?ms = 3"
    using y m d h mi s ms by (simp_all add: length_pad)
  have chars: "\<forall>c \<in> set (?Y @ ?M @ ?D @ ?h @ ?m @ ?s @ ?ms). c \<in> set digit_chars"
    by (auto dest: pad_chars)
  have "iso_8601 (?Y @ ''-'' @ ?M @ ''-'' @ ?D @ ''T'' @ ?h @ '':'' @ ?m @ '':'' @ ?s @ ''.'' @ ?ms @ ''Z'')"
    unfolding iso_8601_def
    by (rule exI [of _ ?Y], rule exI [of _ ?M], rule exI [of _ ?D], rule exI [of _ ?h],
        rule exI [of _ ?m], rule exI [of _ ?s], rule exI [of _ ?ms])
      (use len chars in blast)
  with eq show ?thesis by simp
qed

lemma submit_succeeded_spec: "closed_and_reset st (submit_succeeded msg (st\<lparr>errors := []\<rparr>))"
  by (auto simp: closed_and_reset_def submit_succeeded_def reset_def notify_def)

lemma submit_failed_spec: "left_open_with_error st (submit_failed msg (st\<lparr>errors := []\<rparr>))"
  by (auto simp: left_open_with_error_def submit_failed_def notify_def)

lemma registrationSchema_valid:
  "registrationSchema d = [] \<Longrightarrow> \<exists>t. form_registrationDate d = ValidDate t"
  by (cases "form_registrationDate d") (simp_all add: registrationSchema_def split: if_splits)

lemma RegistrationForm_submit_valid:
  assumes "registrationSchema (form_values st) = []"
    and "toISOString (form_registrationDate (form_values st)) = Inr isoString"
  shows "RegistrationForm_submit editing st outcome =
    (case outcome of
       Fulfilled u \<Rightarrow>
         submit_succeeded (''Registration '' @ (if editing then ''updated'' else ''created'') @
                           '' successfully'') (st\<lparr>errors := []\<rparr>)
     | Rejected e \<Rightarrow>
         submit_failed (''Failed to '' @ (if editing then ''update'' else ''create'') @
                        '' registration. Please try again.'') (st\<lparr>errors := []\<rparr>),
     [\<lparr>studentId_num = parseInt (studentId (form_values st)),
       courseId_num = parseInt (courseId (form_values st)),
       registrationDate_iso = isoString\<rparr>])"
  using assms
  by (cases outcome) (simp_all add: RegistrationForm_submit_def RegistrationForm_handleSubmit_def Let_def)

lemma ResultForm_submit_valid:
  assumes "resultSchema (form_values st) = []"
  shows "ResultForm_submit editing st outcome =
    (case outcome of
       Fulfilled u \<Rightarrow>
         submit_succeeded (''Result '' @ (if editing then ''updated'' else ''recorded'') @
                           '' successfully'') (st\<lparr>errors := []\<rparr>)
     | Rejected e \<Rightarrow>
         submit_failed (''Failed to '' @ (if editing then ''update'' else ''record'') @
                        '' result. Please try again.'') (st\<lparr>errors := []\<rparr>),
     [\<lparr>studentId_num = parseInt (studentId (form_values st)),
       courseId_num = parseInt (courseId (form_values st)),
       grade_str = form_grade (form_values st)\<rparr>])"
  using assms
  by (cases outcome) (simp_all add: ResultForm_submit_def ResultForm_handleSubmit_def Let_def)

text \<open>
  C5. A registration or result form submission that passes validation calls the submit
  callback exactly once, with \<^verbatim>\<open>parseInt\<close> of the two select values and, for a
  registration, the ISO string of the date (for a result, the grade as it is). A select
  value is the \<^verbatim>\<open>toString\<close> of a record id, which \<^verbatim>\<open>parseInt\<close> turns back into that id,
  and the string of a date with a four-digit year has the shape
  \<^verbatim>\<open>YYYY-MM-DDTHH:mm:ss.sssZ\<close>. When the callback fulfils, the form is closed and reset
  to its default values with a success notification; when it rejects, the form stays
  open with its values, and the one error notification added is the same whatever the
  rejection was.
\<close>

theorem submit_handlers:
  "(registrationSchema (form_values gs) = [] \<longrightarrow>
      (\<exists>isoString.
          toISOString (form_registrationDate (form_values gs)) = Inr isoString \<and>
          snd (RegistrationForm_submit editing gs outcome)
            = [\<lparr>studentId_num = parseInt (studentId (form_values gs)),
                courseId_num = parseInt (courseId (form_values gs)),
                registrationDate_iso = isoString\<rparr>]) \<and>
      (outcome = Fulfilled () \<longrightarrow>
         closed_and_reset gs (fst (RegistrationForm_submit editing gs outcome))) \<and>
      (\<forall>e. outcome = Rejected e \<longrightarrow>
         left_open_with_error gs (fst (RegistrationForm_submit editing gs outcome))) \<and>
      (\<forall>e e'. fst (RegistrationForm_submit editing gs (Rejected e))
               = fst (RegistrationForm_submit editing gs (Rejected e')))) \<and>
   (resultSchema (form_values rs) = [] \<longrightarrow>
      snd (ResultForm_submit editing rs outcome)
        = [\<lparr>studentId_num = parseInt (studentId (form_values rs)),
            courseId_num = parseInt (courseId (form_values rs)),
            grade_str = form_grade (form_values rs)\<rparr>] \<and>
      (outcome = Fulfilled () \<longrightarrow>
         closed_and_reset rs (fst (ResultForm_submit editing rs outcome))) \<and>
      (\<forall>e. outcome = Rejected e \<longrightarrow>
         left_open_with_error rs (fst (ResultForm_submit editing rs outcome))) \<and>
      (\<forall>e e'. fst (ResultForm_submit editing rs (Rejected e))
               = fst (ResultForm_submit editing rs (Rejected e')))) \<and>
   (\<bar>n\<bar> < 2 ^ 53 \<longrightarrow> parseInt (Number_toString n) = Num (of_int n)) \<and>
   (utc_in_range t \<longrightarrow> (\<exists>s. toISOString (ValidDate t) = Inr s \<and> iso_8601 s))"
proof (intro conjI impI allI)
  assume v: "registrationSchema (form_values gs) = []"
  then obtain u where "form_registrationDate (form_values gs) = ValidDate u"
    by (auto dest: registrationSchema_valid)
  then obtain isoString where i: "toISOString (form_registrationDate (form_values gs)) = Inr isoString"
    by (simp add: toISOString_def)
  note s = RegistrationForm_submit_valid [OF v i]
  show "\<exists>isoString.
          toISOString (form_registrationDate (form_values gs)) = Inr isoString \<and>
          snd (RegistrationForm_submit editing gs outcome)
            = [\<lparr>studentId_num = parseInt (studentId (form_values gs)),
                courseId_num = parseInt (courseId (form_values gs)),
                registrationDate_iso = isoString\<rparr>]"
    by (rule exI [of _ isoString]) (simp add: i s)
  show "closed_and_reset gs (fst (RegistrationForm_submit editing gs outcome))"
    if "outcome = Fulfilled ()"
    using that by (simp add: s submit_succeeded_spec)
  show "left_open_with_error gs (fst (RegistrationForm_submit editing gs outcome))"
    if "outcome = Rejected e" for e
    using that by (simp add: s submit_failed_spec)
  show "fst (RegistrationForm_submit editing gs (Rejected e))
               = fst (RegistrationForm_submit editing gs (Rejected e'))" for e e'
    by (simp add: s)
next
  assume v: "resultSchema (form_values rs) = []"
  note s = ResultForm_submit_valid [OF v]
  show "snd (ResultForm_submit editing rs outcome)
        = [\<lparr>studentId_num = parseInt (studentId (form_values rs)),
            courseId_num = parseInt (courseId (form_values rs)),
            grade_str = form_grade (form_values rs)\<rparr>]"
    by (simp add: s)
  show "closed_and_reset rs (fst (ResultForm_submit editing rs outcome))"
    if "outcome = Fulfilled ()"
    using that by (simp add: s submit_succeeded_spec)
  show "left_open_with_error rs (fst (ResultForm_submit editing rs outcome))"
    if "outcome = Rejected e" for e
    using that by (simp add: s submit_failed_spec)
  show "fst (ResultForm_submit editing rs (Rejected e))
               = fst (ResultForm_submit editing rs (Rejected e'))" for e e'
    by (simp add: s)
next
  show "parseInt (Number_toString n) = Num (of_int n)"
    by (rule parseInt_Number_toString)
  show "\<exists>s. toISOString (ValidDate t) = Inr s \<and> iso_8601 s" if "utc_in_range t"
    using that by (rule toISOString_shape)
qed

theorem submit_handlers_witness:
  "snd (RegistrationForm_submit False
      (opened_select \<lparr>studentId = ''1'', courseId = ''10'',
                       form_registrationDate = ValidDate march_15\<rparr>
         blank_registration [alice] [cs101]) (Fulfilled ()))
     = [\<lparr>studentId_num = Num 1, courseId_num = Num 10,
         registrationDate_iso = ''2024-03-15T09:30:00.007Z''\<rparr>] \<and>
   \<not> isOpen (fst (RegistrationForm_submit False
      (opened_select \<lparr>studentId = ''1'', courseId = ''10'',
                       form_registrationDate = ValidDate march_15\<rparr>
         blank_registration [alice] [cs101]) (Fulfilled ()))) \<and>
   isOpen (fst (RegistrationForm_submit False
      (opened_select \<lparr>studentId = ''1'', courseId = ''10'',
                       form_registrationDate = ValidDate march_15\<rparr>
         blank_registration [alice] [cs101]) (Rejected unreachable))) \<and>
   snd (ResultForm_submit True
      (opened_select \<lparr>studentId = ''1'', courseId = ''10'', form_grade = ''B+''\<rparr>
         blank_result [alice] [cs101]) (Fulfilled ()))
     = [\<lparr>studentId_num = Num 1, courseId_num = Num 10, grade_str = ''B+''\<rparr>] \<and>
   form_values (fst (ResultForm_submit True
      (opened_select \<lparr>studentId = ''1'', courseId = ''10'', form_grade = ''B+''\<rparr>
         blank_result [alice] [cs101]) (Fulfilled ()))) = blank_result \<and>
   isOpen (fst (ResultForm_submit True
      (opened_select \<lparr>studentId = ''1'', courseId = ''10'', form_grade = ''B+''\<rparr>
         blank_result [alice] [cs101]) (Rejected unreachable))) \<and>
   parseInt (Number_toString (Course_id cs101)) = Num 10 \<and>
   iso_8601 ''2024-03-15T09:30:00.007Z''"
proof -
  let ?gs = "opened_select \<lparr>studentId = ''1'', courseId = ''10'',
                       form_registrationDate = ValidDate march_15\<rparr>
         blank_registration [alice] [cs101]"
  let ?rs = "opened_select \<lparr>studentId = ''1'', courseId = ''10'', form_grade = ''B+''\<rparr>
         blank_result [alice] [cs101]"
  have vg: "registrationSchema (form_values ?gs) = []"
    by (simp add: registrationSchema_def opened_select_def)
  have vr: "resultSchema (form_values ?rs) = []"
    by (simp add: resultSchema_def opened_select_def)
  have small: "\<bar>Course_id cs101\<bar> < 2 ^ 53" by (simp add: cs101_def)
  have range: "utc_in_range march_15" by (simp add: utc_in_range_def march_15_def)
  have iso: "toISOString (ValidDate march_15) = Inr ''2024-03-15T09:30:00.007Z''" by code_simp
  have p1: "parseInt ''1'' = Num 1" and p10: "parseInt ''10'' = Num 10" by code_simp+
  note gf = submit_handlers [of ?gs False "Fulfilled ()", THEN conjunct1, THEN mp, OF vg]
  note gr = submit_handlers [of ?gs False "Rejected unreachable", THEN conjunct1, THEN mp, OF vg]
  note rf = submit_handlers [of _ True "Fulfilled ()" ?rs, THEN conjunct2, THEN conjunct1,
      THEN mp, OF vr]
  note rr = submit_handlers [of _ True "Rejected unreachable" ?rs, THEN conjunct2, THEN conjunct1,
      THEN mp, OF vr]
  note n = submit_handlers [of _ _ _ _ "Course_id cs101", THEN conjunct2, THEN conjunct2,
      THEN conjunct1, THEN mp, OF small]
  note d = submit_handlers [of _ _ _ _ _ march_15, THEN conjunct2, THEN conjunct2, THEN conjunct2,
      THEN mp, OF range]
  from gf [THEN conjunct1]
  have 1: "snd (RegistrationForm_submit False ?gs (Fulfilled ()))
     = [\<lparr>studentId_num = Num 1, courseId_num = Num 10,
         registrationDate_iso = ''2024-03-15T09:30:00.007Z''\<rparr>]"
    by (simp add: opened_select_def iso p1 p10)
  from gf [THEN conjunct2, THEN conjunct1, THEN mp, OF refl]
  have 2: "\<not> isOpen (fst (RegistrationForm_submit False ?gs (Fulfilled ())))"
    by (simp add: closed_and_reset_def)
  from gr [THEN conjunct2, THEN conjunct2, THEN conjunct1, THEN spec, THEN mp, OF refl]
  have 3: "isOpen (fst (RegistrationForm_submit False ?gs (Rejected unreachable)))"
    by (simp add: left_open_with_error_def opened_select_def)
  from rf [THEN conjunct1]
  have 4: "snd (ResultForm_submit True ?rs (Fulfilled ()))
     = [\<lparr>studentId_num = Num 1, courseId_num = Num 10, grade_str = ''B+''\<rparr>]"
    by (simp add: opened_select_def p1 p10)
  from rf [THEN conjunct2, THEN conjunct1, THEN mp, OF refl]
  have 5: "form_values (fst (ResultForm_submit True ?rs (Fulfilled ()))) = blank_result"
    by (simp add: closed_and_reset_def opened_select_def)
  from rr [THEN conjunct2, THEN conjunct2, THEN conjunct1, THEN spec, THEN mp, OF refl]
  have 6: "isOpen (fst (ResultForm_submit True ?rs (Rejected unreachable)))"
    by (simp add: left_open_with_error_def opened_select_def)
  from n have 7: "parseInt (Number_toString (Course_id cs101)) = Num 10"
    by (simp add: cs101_def)
  from d have 8: "iso_8601 ''2024-03-15T09:30:00.007Z''" by (simp add: iso)
  from 1 2 3 4 5 6 7 8 show ?thesis by (intro conjI)
qed

end
